theory Spec2Isabelle
  imports Main
begin

section \<open>JavaScript values, errors and strings\<close>

text \<open>
  The application is TypeScript, but everything that crosses \<^verbatim>\<open>JSON.parse\<close> is an
  untyped JavaScript value at run time. Such values are carried as \<open>js_value\<close>.
  An object is the list of its own properties, each key once, in insertion order, as
  \<^verbatim>\<open>JSON.parse\<close> builds it. Numbers are carried as integers: the code under study only
  tests a number for being zero. Strings are byte lists (a literal of the source is its
  UTF-8 encoding).
\<close>

datatype js_value =
    JUndefined
  | JNull
  | JBool bool
  | JNum int
  | JStr string
  | JArr "js_value list"
  | JObj "(string \<times> js_value) list"

text \<open>A thrown value: the error's class with its \<^verbatim>\<open>message\<close>.\<close>

datatype js_error =
    Error string
  | TypeError string
  | SyntaxError string
  | DOMException string

fun error_message :: "js_error \<Rightarrow> string" where
  "error_message (Error m) = m"
| "error_message (TypeError m) = m"
| "error_message (SyntaxError m) = m"
| "error_message (DOMException m) = m"

text \<open>
  Reading property \<open>k\<close> of \<^verbatim>\<open>null\<close> or \<^verbatim>\<open>undefined\<close> throws a TypeError; the
  message is the engine's (V8's wording here), no claim depends on it.
\<close>

definition cannot_read :: "string \<Rightarrow> string \<Rightarrow> js_error" where
  "cannot_read what k =
     TypeError (''Cannot read properties of '' @ what @ '' (reading '' @ [CHR 0x27] @ k @ [CHR 0x27] @ '')'')"

text \<open>
  \<^verbatim>\<open>v.k\<close>. Only own properties and \<^verbatim>\<open>length\<close> are modelled: the keys the code reads
  (\<^verbatim>\<open>messageType\<close>, \<^verbatim>\<open>sentiment\<close>, \<^verbatim>\<open>sentences\<close>, \<^verbatim>\<open>toneDescription\<close>, \<^verbatim>\<open>theme\<close>,
  \<^verbatim>\<open>length\<close>) name no
  inherited property of \<^verbatim>\<open>Object.prototype\<close>, \<^verbatim>\<open>Array.prototype\<close> or a primitive's
  wrapper.
\<close>

fun get_prop :: "js_value \<Rightarrow> string \<Rightarrow> js_error + js_value" where
  "get_prop JUndefined k = Inl (cannot_read ''undefined'' k)"
| "get_prop JNull k = Inl (cannot_read ''null'' k)"
| "get_prop (JObj kvs) k = Inr (case map_of kvs k of None \<Rightarrow> JUndefined | Some v \<Rightarrow> v)"
| "get_prop (JArr xs) k = Inr (if k = ''length'' then JNum (int (length xs)) else JUndefined)"
| "get_prop (JStr s) k = Inr (if k = ''length'' then JNum (int (length s)) else JUndefined)"
| "get_prop (JBool b) k = Inr JUndefined"
| "get_prop (JNum n) k = Inr JUndefined"

text \<open>JavaScript's ToBoolean, as \<^verbatim>\<open>!v\<close> and \<^verbatim>\<open>v || d\<close> use it.\<close>

fun truthy :: "js_value \<Rightarrow> bool" where
  "truthy JUndefined = False"
| "truthy JNull = False"
| "truthy (JBool b) = b"
| "truthy (JNum n) = (n \<noteq> 0)"
| "truthy (JStr s) = (s \<noteq> [])"
| "truthy (JArr xs) = True"
| "truthy (JObj kvs) = True"

text \<open>Sequencing of computations that may throw: the first throw wins.\<close>

definition bind_js :: "js_error + 'a \<Rightarrow> ('a \<Rightarrow> js_error + 'b) \<Rightarrow> js_error + 'b" where
  "bind_js r f = (case r of Inl e \<Rightarrow> Inl e | Inr v \<Rightarrow> f v)"

subsection \<open>\<^verbatim>\<open>String.prototype.trim\<close>\<close>

text \<open>
  \<^verbatim>\<open>trim\<close> removes ECMAScript white space and line terminators from both ends:
  U+0009 to U+000D and U+0020 (one byte); U+00A0 (two bytes); U+1680, U+2000 to U+200A,
  U+2028, U+2029, U+202F, U+205F, U+3000 and U+FEFF (three bytes each).
\<close>

definition ws1 :: "char \<Rightarrow> bool" where
  "ws1 a = (a = CHR 0x09 \<or> a = CHR 0x0A \<or> a = CHR 0x0B \<or> a = CHR 0x0C \<or> a = CHR 0x0D \<or> a = CHR 0x20)"

definition ws2 :: "char \<Rightarrow> char \<Rightarrow> bool" where
  "ws2 a b = (a = CHR 0xC2 \<and> b = CHR 0xA0)"

definition ws3 :: "char \<Rightarrow> char \<Rightarrow> char \<Rightarrow> bool" where
  "ws3 a b c =
     ((a = CHR 0xE1 \<and> b = CHR 0x9A \<and> c = CHR 0x80)
    \<or> (a = CHR 0xE2 \<and> b = CHR 0x80 \<and> (0x80::nat) \<le> of_char c \<and> of_char c \<le> (0x8A::nat))
    \<or> (a = CHR 0xE2 \<and> b = CHR 0x80 \<and> (c = CHR 0xA8 \<or> c = CHR 0xA9 \<or> c = CHR 0xAF))
    \<or> (a = CHR 0xE2 \<and> b = CHR 0x81 \<and> c = CHR 0x9F)
    \<or> (a = CHR 0xE3 \<and> b = CHR 0x80 \<and> c = CHR 0x80)
    \<or> (a = CHR 0xEF \<and> b = CHR 0xBB \<and> c = CHR 0xBF))"

fun trimStart :: "string \<Rightarrow> string" where
  "trimStart (a # b # c # s) =
     (if ws1 a then trimStart (b # c # s)
      else if ws2 a b then trimStart (c # s)
      else if ws3 a b c then trimStart s
      else a # b # c # s)"
| "trimStart [a, b] = (if ws1 a then trimStart [b] else if ws2 a b then [] else [a, b])"
| "trimStart [a] = (if ws1 a then [] else [a])"
| "trimStart [] = []"

text \<open>The same from the end, on the reversed string (the bytes of a unit come last first).\<close>

fun trimStart_rev :: "string \<Rightarrow> string" where
  "trimStart_rev (c # b # a # s) =
     (if ws1 c then trimStart_rev (b # a # s)
      else if ws2 b c then trimStart_rev (a # s)
      else if ws3 a b c then trimStart_rev s
      else c # b # a # s)"
| "trimStart_rev [c, b] = (if ws1 c then trimStart_rev [b] else if ws2 b c then [] else [c, b])"
| "trimStart_rev [c] = (if ws1 c then [] else [c])"
| "trimStart_rev [] = []"

definition trimEnd :: "string \<Rightarrow> string" where
  "trimEnd s = rev (trimStart_rev (rev s))"

definition trim :: "string \<Rightarrow> string" where
  "trim s = trimEnd (trimStart s)"

subsection \<open>\<^verbatim>\<open>JSON.parse\<close> and \<^verbatim>\<open>JSON.stringify\<close> on strings, booleans, \<^verbatim>\<open>null\<close>, arrays and objects\<close>

text \<open>
  The two platform functions are parameters of the code below. On texts and values made
  of strings, booleans, \<^verbatim>\<open>null\<close>, arrays and objects ECMA-262 fixes their results, and
  the two functions of this subsection compute them: \<open>JSON_parse_model t = Some v\<close> says
  that \<^verbatim>\<open>JSON.parse\<close> returns \<open>v\<close> on the text \<open>t\<close>, and \<open>JSON_stringify_model v = Some t\<close>
  that \<^verbatim>\<open>JSON.stringify\<close> returns \<open>t\<close> on the value \<open>v\<close>. The result \<open>None\<close> says
  nothing: the text is no JSON text, or it is outside what is computed here, which is a
  number, an escape \<^verbatim>\<open>\uXXXX\<close> above U+007F, a property key made of digits only
  (JavaScript lists such keys before the others), a string with a lone surrogate, or
  \<^verbatim>\<open>undefined\<close>.
\<close>

definition json_ws :: "char \<Rightarrow> bool" where
  "json_ws c = (c = CHR 0x20 \<or> c = CHR 0x09 \<or> c = CHR 0x0A \<or> c = CHR 0x0D)"

definition skip_ws :: "string \<Rightarrow> string" where
  "skip_ws s = dropWhile json_ws s"

definition hex_value :: "char \<Rightarrow> nat option" where
  "hex_value c =
     (let n = (of_char c :: nat) in
      if 0x30 \<le> n \<and> n \<le> 0x39 then Some (n - 0x30)
      else if 0x41 \<le> n \<and> n \<le> 0x46 then Some (n - 0x37)
      else if 0x61 \<le> n \<and> n \<le> 0x66 then Some (n - 0x57)
      else None)"

definition simple_escape :: "char \<Rightarrow> char option" where
  "simple_escape e =
     (if e = CHR 0x22 then Some (CHR 0x22)
      else if e = CHR 0x5C then Some (CHR 0x5C)
      else if e = CHR ''/'' then Some (CHR ''/'')
      else if e = CHR ''b'' then Some (CHR 0x08)
      else if e = CHR ''f'' then Some (CHR 0x0C)
      else if e = CHR ''n'' then Some (CHR 0x0A)
      else if e = CHR ''r'' then Some (CHR 0x0D)
      else if e = CHR ''t'' then Some (CHR 0x09)
      else None)"

definition prepend :: "char \<Rightarrow> (string \<times> string) option \<Rightarrow> (string \<times> string) option" where
  "prepend c r = map_option (\<lambda>(v, rest). (c # v, rest)) r"

text \<open>
  The characters of a JSON string after its opening quote, up to the closing one, and
  the text that follows. A control character must be escaped.
\<close>

fun parse_chars :: "string \<Rightarrow> (string \<times> string) option" where
  "parse_chars [] = None"
| "parse_chars (c # cs) =
     (if c = CHR 0x22 then Some ([], cs)
      else if c = CHR 0x5C then
        (case cs of
           [] \<Rightarrow> None
         | e # es \<Rightarrow>
             if e = CHR ''u'' then
               (case es of
                  h3 # h2 # h1 # h0 # rest \<Rightarrow>
                    (case (hex_value h3, hex_value h2, hex_value h1, hex_value h0) of
                       (Some a, Some b, Some c', Some d) \<Rightarrow>
                         (if ((a * 16 + b) * 16 + c') * 16 + d < 0x80
                          then prepend (char_of (((a * 16 + b) * 16 + c') * 16 + d)) (parse_chars rest)
                          else None)
                     | _ \<Rightarrow> None)
                | _ \<Rightarrow> None)
             else
               (case simple_escape e of
                  None \<Rightarrow> None
                | Some x \<Rightarrow> prepend x (parse_chars es)))
      else if (of_char c :: nat) < 0x20 then None
      else prepend c (parse_chars cs))"

definition is_digits :: "string \<Rightarrow> bool" where
  "is_digits k = (k \<noteq> [] \<and> list_all (\<lambda>c. (0x30::nat) \<le> of_char c \<and> of_char c \<le> (0x39::nat)) k)"

text \<open>
  Defining property \<open>k\<close> on an object: an existing property keeps its place and takes the
  new value, a new one comes last.
\<close>

definition put_property :: "string \<Rightarrow> js_value \<Rightarrow> (string \<times> js_value) list \<Rightarrow> (string \<times> js_value) list" where
  "put_property k v props =
     (if k \<in> set (map fst props) then map (\<lambda>(k', v'). if k' = k then (k', v) else (k', v')) props
      else props @ [(k, v)])"

text \<open>The object of a member list: of two members with one key the later value wins.\<close>

fun build_object :: "(string \<times> js_value) list \<Rightarrow> (string \<times> js_value) list \<Rightarrow> (string \<times> js_value) list option" where
  "build_object props [] = Some props"
| "build_object props ((k, v) # kvs) =
     (if is_digits k then None else build_object (put_property k v props) kvs)"

text \<open>
  A value, the elements of an array after its bracket, and the members of an object after
  its brace, each with the text that follows. The first argument is fuel: a value, an
  element and a member each use one unit, and \<open>JSON_parse_model\<close> provides one unit
  more than the text has characters. Out of fuel, the result is \<open>None\<close>.
\<close>

fun parse_value :: "nat \<Rightarrow> string \<Rightarrow> (js_value \<times> string) option"
  and parse_elements :: "nat \<Rightarrow> string \<Rightarrow> (js_value list \<times> string) option"
  and parse_members :: "nat \<Rightarrow> string \<Rightarrow> ((string \<times> js_value) list \<times> string) option"
  where
  "parse_value 0 s = None"
| "parse_value (Suc n) s =
     (case skip_ws s of
        [] \<Rightarrow> None
      | c # cs \<Rightarrow>
          if c = CHR 0x22 then map_option (\<lambda>(str, rest). (JStr str, rest)) (parse_chars cs)
          else if c = CHR ''['' then
            (case skip_ws cs of
               [] \<Rightarrow> None
             | d # ds \<Rightarrow>
                 if d = CHR '']'' then Some (JArr [], ds)
                 else map_option (\<lambda>(vs, rest). (JArr vs, rest)) (parse_elements n cs))
          else if c = CHR ''{'' then
            (case skip_ws cs of
               [] \<Rightarrow> None
             | d # ds \<Rightarrow>
                 if d = CHR ''}'' then Some (JObj [], ds)
                 else
                   (case parse_members n cs of
                      None \<Rightarrow> None
                    | Some (kvs, rest) \<Rightarrow> map_option (\<lambda>props. (JObj props, rest)) (build_object [] kvs)))
          else if take 4 (c # cs) = ''true'' then Some (JBool True, drop 4 (c # cs))
          else if take 5 (c # cs) = ''false'' then Some (JBool False, drop 5 (c # cs))
          else if take 4 (c # cs) = ''null'' then Some (JNull, drop 4 (c # cs))
          else None)"
| "parse_elements 0 s = None"
| "parse_elements (Suc n) s =
     (case parse_value n s of
        None \<Rightarrow> None
      | Some (v, rest) \<Rightarrow>
          (case skip_ws rest of
             [] \<Rightarrow> None
           | d # ds \<Rightarrow>
               if d = CHR '','' then map_option (\<lambda>(vs, rest'). (v # vs, rest')) (parse_elements n ds)
               else if d = CHR '']'' then Some ([v], ds)
               else None))"
| "parse_members 0 s = None"
| "parse_members (Suc n) s =
     (case skip_ws s of
        [] \<Rightarrow> None
      | c # cs \<Rightarrow>
          if c \<noteq> CHR 0x22 then None
          else
            (case parse_chars cs of
               None \<Rightarrow> None
             | Some (k, rest) \<Rightarrow>
                 (case skip_ws rest of
                    [] \<Rightarrow> None
                  | d # ds \<Rightarrow>
                      if d \<noteq> CHR '':'' then None
                      else
                        (case parse_value n ds of
                           None \<Rightarrow> None
                         | Some (v, rest') \<Rightarrow>
                             (case skip_ws rest' of
                                [] \<Rightarrow> None
                              | e # es \<Rightarrow>
                                  if e = CHR '','' then
                                    map_option (\<lambda>(kvs, rest''). ((k, v) # kvs, rest'')) (parse_members n es)
                                  else if e = CHR ''}'' then Some ([(k, v)], es)
                                  else None)))))"

definition JSON_parse_model :: "string \<Rightarrow> js_value option" where
  "JSON_parse_model t =
     (case parse_value (Suc (length t)) t of
        None \<Rightarrow> None
      | Some (v, rest) \<Rightarrow> if skip_ws rest = [] then Some v else None)"

text \<open>
  \<^verbatim>\<open>JSON.stringify\<close> with one argument writes no white space. A string is quoted with the
  quote, the backslash and the control characters escaped; a lone surrogate (in a byte
  list: 0xED followed by 0xA0 or more) would be escaped too and is left out.
\<close>

definition hex_digit :: "nat \<Rightarrow> char" where
  "hex_digit n = ''0123456789abcdef'' ! (n mod 16)"

definition quote_char :: "char \<Rightarrow> string" where
  "quote_char c =
     (if c = CHR 0x08 then [CHR 0x5C, CHR ''b'']
      else if c = CHR 0x09 then [CHR 0x5C, CHR ''t'']
      else if c = CHR 0x0A then [CHR 0x5C, CHR ''n'']
      else if c = CHR 0x0C then [CHR 0x5C, CHR ''f'']
      else if c = CHR 0x0D then [CHR 0x5C, CHR ''r'']
      else if c = CHR 0x22 then [CHR 0x5C, CHR 0x22]
      else if c = CHR 0x5C then [CHR 0x5C, CHR 0x5C]
      else if (of_char c :: nat) < 0x20
        then [CHR 0x5C, CHR ''u'', CHR ''0'', CHR ''0'', hex_digit (of_char c div 16), hex_digit (of_char c)]
      else [c])"

definition QuoteJSONString :: "string \<Rightarrow> string" where
  "QuoteJSONString s = [CHR 0x22] @ concat (map quote_char s) @ [CHR 0x22]"

fun has_surrogate :: "string \<Rightarrow> bool" where
  "has_surrogate (a # b # s) = ((a = CHR 0xED \<and> (0xA0::nat) \<le> of_char b) \<or> has_surrogate (b # s))"
| "has_surrogate [a] = False"
| "has_surrogate [] = False"

fun separated :: "string list \<Rightarrow> string" where
  "separated [] = []"
| "separated [t] = t"
| "separated (t # u # ts) = t @ '','' @ separated (u # ts)"

definition plain_keys :: "string list \<Rightarrow> bool" where
  "plain_keys ks = (distinct ks \<and> list_all (\<lambda>k. \<not> is_digits k \<and> \<not> has_surrogate k) ks)"

fun JSON_stringify_model :: "js_value \<Rightarrow> string option" where
  "JSON_stringify_model JNull = Some ''null''"
| "JSON_stringify_model (JBool b) = Some (if b then ''true'' else ''false'')"
| "JSON_stringify_model (JStr s) = (if has_surrogate s then None else Some (QuoteJSONString s))"
| "JSON_stringify_model (JArr xs) =
     map_option (\<lambda>ts. ''['' @ separated ts @ '']'') (those (map JSON_stringify_model xs))"
| "JSON_stringify_model (JObj props) =
     (if plain_keys (map fst props)
      then map_option (\<lambda>ts. ''{'' @ separated ts @ ''}'')
             (those (map (\<lambda>(k, v). map_option (\<lambda>t. QuoteJSONString k @ '':'' @ t) (JSON_stringify_model v)) props))
      else None)"
| "JSON_stringify_model (JNum n) = None"
| "JSON_stringify_model JUndefined = None"

text \<open>
  The text of one member, the characters a value's text can start with, and the property
  that the section on the theme proves of every value: the parser reads a value back from
  its text, whatever follows the text.
\<close>

definition member_text :: "string \<times> js_value \<Rightarrow> string option" where
  "member_text kv = (case kv of (k, v) \<Rightarrow> map_option (\<lambda>t. QuoteJSONString k @ '':'' @ t) (JSON_stringify_model v))"

definition value_start :: "char \<Rightarrow> bool" where
  "value_start c = (c = CHR 0x22 \<or> c = CHR ''['' \<or> c = CHR ''{'' \<or> c = CHR ''t'' \<or> c = CHR ''f'' \<or> c = CHR ''n'')"

definition round_trips :: "js_value \<Rightarrow> bool" where
  "round_trips v = (\<forall>t n r. JSON_stringify_model v = Some t \<longrightarrow> length t < n \<longrightarrow>
                      parse_value n (t @ r) = Some (v, r))"

section \<open>The enumerations of \<^verbatim>\<open>types.ts\<close>\<close>

text \<open>
  A TypeScript string enum is its string value at run time; each member is given with
  that value.
\<close>

datatype MessageType = NEW_STUDENT | CURRENT_STUDENT | ABSENT_STUDENT | RESCHEDULE | PAYMENT | GENERAL

fun MessageType_value :: "MessageType \<Rightarrow> string" where
  "MessageType_value NEW_STUDENT = ''New student inquiry''"
| "MessageType_value CURRENT_STUDENT = ''Current student''"
| "MessageType_value ABSENT_STUDENT = ''Absent student''"
| "MessageType_value RESCHEDULE = ''Reschedule request''"
| "MessageType_value PAYMENT = ''Payment inquiry''"
| "MessageType_value GENERAL = ''General question''"

datatype ReplyTone = FORMAL | FRIENDLY | WARM_MOTIVATIONAL | BRIEF_DIRECT | ISLAMIC | FOR_KIDS

fun ReplyTone_value :: "ReplyTone \<Rightarrow> string" where
  "ReplyTone_value FORMAL = ''Professional''"
| "ReplyTone_value FRIENDLY = ''Friendly''"
| "ReplyTone_value WARM_MOTIVATIONAL = ''Warm & Motivational''"
| "ReplyTone_value BRIEF_DIRECT = ''Brief & Direct''"
| "ReplyTone_value ISLAMIC = ''Islamic (Spiritual)''"
| "ReplyTone_value FOR_KIDS = ''For Kids''"

datatype IntegrationPlatform = WHATSAPP | EMAIL | GENERIC

fun IntegrationPlatform_value :: "IntegrationPlatform \<Rightarrow> string" where
  "IntegrationPlatform_value WHATSAPP = ''WhatsApp''"
| "IntegrationPlatform_value EMAIL = ''Email''"
| "IntegrationPlatform_value GENERIC = ''Generic Chat''"

datatype Sentiment = POSITIVE | NEUTRAL | NEGATIVE | APOLOGETIC | ENTHUSIASTIC | INQUIRY

fun Sentiment_value :: "Sentiment \<Rightarrow> string" where
  "Sentiment_value POSITIVE = ''Positive''"
| "Sentiment_value NEUTRAL = ''Neutral''"
| "Sentiment_value NEGATIVE = ''Negative''"
| "Sentiment_value APOLOGETIC = ''Apologetic''"
| "Sentiment_value ENTHUSIASTIC = ''Enthusiastic''"
| "Sentiment_value INQUIRY = ''Inquiry''"

text \<open>\<^verbatim>\<open>Object.values\<close> of each enumeration, in declaration order.\<close>

definition MessageType_values :: "string list" where
  "MessageType_values =
     map MessageType_value [NEW_STUDENT, CURRENT_STUDENT, ABSENT_STUDENT, RESCHEDULE, PAYMENT, GENERAL]"

definition ReplyTone_values :: "string list" where
  "ReplyTone_values =
     map ReplyTone_value [FORMAL, FRIENDLY, WARM_MOTIVATIONAL, BRIEF_DIRECT, ISLAMIC, FOR_KIDS]"

definition IntegrationPlatform_values :: "string list" where
  "IntegrationPlatform_values = map IntegrationPlatform_value [WHATSAPP, EMAIL, GENERIC]"

definition Sentiment_values :: "string list" where
  "Sentiment_values =
     map Sentiment_value [POSITIVE, NEUTRAL, NEGATIVE, APOLOGETIC, ENTHUSIASTIC, INQUIRY]"

section \<open>The model service and the two pipeline stages (\<^verbatim>\<open>geminiService.ts\<close>)\<close>

record Student =
  student_id :: string
  student_name :: string
  lastContactedAt :: string
  preferredTone :: string
  totalMessages :: int

text \<open>
  A prompt is carried by the values interpolated into its template; the fixed wording
  around them is left out. The analysis prompt interpolates the student's message; the
  reply prompt interpolates the teacher's name, the platform, the student's name, the
  message, the detected message type and sentiment, and the tone.
\<close>

record reply_prompt =
  prompt_teacherName :: string
  prompt_platform :: string
  prompt_studentName :: string
  prompt_studentMessage :: string
  prompt_messageType :: js_value
  prompt_sentiment :: js_value
  prompt_tone :: string

datatype prompt = AnalysisPrompt string | ReplyPrompt reply_prompt

text \<open>
  What \<^verbatim>\<open>await ai.models.generateContent(...)\<close> gives: the promise rejects with an
  error, or resolves with a response whose \<^verbatim>\<open>text\<close> is a string or \<^verbatim>\<open>undefined\<close>.
  The service is a parameter \<open>ai\<close> of the stages, and \<^verbatim>\<open>JSON.parse\<close> a parameter
  \<open>parse\<close>: both belong to the platform, and the properties below hold for each of
  their behaviours.
\<close>

datatype ai_outcome = Rejected js_error | Resolved "string option"

type_synonym ai_service = "prompt \<Rightarrow> ai_outcome"

type_synonym json_parser = "string \<Rightarrow> js_error + js_value"

text \<open>
  The progress indicator of \<^verbatim>\<open>types.ts\<close> (\<^verbatim>\<open>GenerationProgress\<close>): every field is
  optional. The fields carry the prefix \<open>p_\<close>.
\<close>

record GenerationProgress =
  p_reading :: "bool option"
  p_detecting :: "bool option"
  p_drafting :: "bool option"
  p_translating :: "bool option"
  p_done :: "bool option"
  p_error :: "string option"

text \<open>
  The effects of a run in program order: requests to the model, lines written with
  \<^verbatim>\<open>console.error\<close>, and the calls of the component's state setters (with the value
  the state takes).
\<close>

datatype event =
    ModelCall prompt
  | ConsoleError string js_error
  | SetIsLoading bool
  | SetError "string option"
  | SetReplySentences js_value
  | SetToneDescription js_value
  | SetProgress GenerationProgress
  | SetDetectedContext js_value
  | SetMessageType js_value

subsection \<open>\<^verbatim>\<open>analyzeContext\<close>\<close>

definition DEFAULT_CONTEXT :: js_value where
  "DEFAULT_CONTEXT =
     JObj [(''messageType'', JStr (MessageType_value GENERAL)),
           (''sentiment'', JStr (Sentiment_value NEUTRAL)),
           (''detectedLanguage'', JStr ''unknown'')]"

text \<open>The \<^verbatim>\<open>try\<close> block: the request, then \<^verbatim>\<open>JSON.parse(response.text.trim())\<close>.\<close>

definition analyzeContext_try :: "ai_service \<Rightarrow> json_parser \<Rightarrow> string \<Rightarrow> js_error + js_value" where
  "analyzeContext_try ai parse studentMessage =
     (case ai (AnalysisPrompt studentMessage) of
        Rejected e \<Rightarrow> Inl e
      | Resolved None \<Rightarrow> Inl (cannot_read ''undefined'' ''trim'')
      | Resolved (Some text) \<Rightarrow> parse (trim text))"

text \<open>
  The function with its \<^verbatim>\<open>catch\<close>. The result is what the caller's \<^verbatim>\<open>await\<close>
  sees: \<open>Inl\<close> would be a rejection, \<open>Inr\<close> is the resolved value.
\<close>

definition analyzeContext ::
  "ai_service \<Rightarrow> json_parser \<Rightarrow> string \<Rightarrow> (js_error + js_value) \<times> event list" where
  "analyzeContext ai parse studentMessage =
     (case analyzeContext_try ai parse studentMessage of
        Inr parsed \<Rightarrow> (Inr parsed, [ModelCall (AnalysisPrompt studentMessage)])
      | Inl error \<Rightarrow>
          (Inr DEFAULT_CONTEXT,
           [ModelCall (AnalysisPrompt studentMessage), ConsoleError ''Error analyzing context:'' error]))"

text \<open>
  The interface \<^verbatim>\<open>AnalyzedContext\<close> with the enumerations of
  \<^verbatim>\<open>contextAnalysisSchema\<close>: an object whose three fields are strings of the three
  closed sets.
\<close>

definition is_AnalyzedContext :: "js_value \<Rightarrow> bool" where
  "is_AnalyzedContext v =
     (case v of
        JObj kvs \<Rightarrow>
          (case (map_of kvs ''messageType'', map_of kvs ''sentiment'', map_of kvs ''detectedLanguage'') of
             (Some (JStr t), Some (JStr s), Some (JStr l)) \<Rightarrow>
               t \<in> set MessageType_values \<and> s \<in> set Sentiment_values \<and> l \<in> set [''en'', ''ar'', ''unknown'']
           | _ \<Rightarrow> False)
      | _ \<Rightarrow> False)"

subsection \<open>\<^verbatim>\<open>generateBilingualReply\<close>\<close>

text \<open>The interface \<^verbatim>\<open>GeneratedReply\<close>; its fields carry the prefix \<open>reply_\<close>.\<close>

record GeneratedReply =
  reply_sentences :: js_value
  reply_toneDescription :: js_value

definition DEFAULT_TONE_DESCRIPTION :: string where
  "DEFAULT_TONE_DESCRIPTION = [CHR 0xE2, CHR 0xAD, CHR 0x90] @ '' Balanced''"

definition EMPTY_REPLY_MESSAGE :: string where
  "EMPTY_REPLY_MESSAGE = ''AI returned an empty reply.''"

definition GENERIC_FAILURE_MESSAGE :: string where
  "GENERIC_FAILURE_MESSAGE =
     ''Failed to generate a reply. The model may be unable to process this request. Please try again or rephrase.''"

text \<open>
  ToString, as a template literal applies it to each substituted value. On a value that
  \<^verbatim>\<open>JSON.parse\<close> built it throws in one case only. An object is converted by its
  \<^verbatim>\<open>toString\<close> and \<^verbatim>\<open>valueOf\<close> methods: an own property \<^verbatim>\<open>toString\<close> (never callable
  in parsed JSON) hides the inherited method, \<^verbatim>\<open>valueOf\<close> gives back the object or is
  hidden as well, and the conversion throws a TypeError; without that own property the
  inherited method answers. An array is converted by \<^verbatim>\<open>join\<close>, which converts every
  element that is not \<^verbatim>\<open>null\<close> or \<^verbatim>\<open>undefined\<close>.
\<close>

fun ToString_throws :: "js_value \<Rightarrow> bool" where
  "ToString_throws (JObj kvs) = (map_of kvs ''toString'' \<noteq> None)"
| "ToString_throws (JArr xs) = list_ex ToString_throws xs"
| "ToString_throws JUndefined = False"
| "ToString_throws JNull = False"
| "ToString_throws (JBool b) = False"
| "ToString_throws (JNum n) = False"
| "ToString_throws (JStr s) = False"

text \<open>
  A substitution \<^verbatim>\<open>${v}\<close>: the value that goes into the prompt, or the TypeError of
  its conversion.
\<close>

definition substituted :: "js_value \<Rightarrow> js_error + js_value" where
  "substituted v =
     (if ToString_throws v then Inl (TypeError ''Cannot convert object to primitive value'')
      else Inr v)"

text \<open>
  The template literal: it reads \<^verbatim>\<open>student?.name || 'student'\<close>, then
  \<^verbatim>\<open>context.messageType\<close> and \<^verbatim>\<open>context.sentiment\<close>, each read and then converted
  to a string. The reads throw on a \<^verbatim>\<open>null\<close> context, the conversions on a field
  that cannot be converted. The other substitutions are strings.
\<close>

definition build_reply_prompt ::
  "string \<Rightarrow> js_value \<Rightarrow> string \<Rightarrow> string \<Rightarrow> string \<Rightarrow> Student option \<Rightarrow> js_error + prompt" where
  "build_reply_prompt studentMessage context tone platform teacherName student =
     bind_js (get_prop context ''messageType'') (\<lambda>mt.
     bind_js (substituted mt) (\<lambda>messageType_text.
     bind_js (get_prop context ''sentiment'') (\<lambda>se.
     bind_js (substituted se) (\<lambda>sentiment_text.
       Inr (ReplyPrompt \<lparr>
         prompt_teacherName = teacherName,
         prompt_platform = platform,
         prompt_studentName =
           (case student of
              None \<Rightarrow> ''student''
            | Some st \<Rightarrow> if student_name st \<noteq> [] then student_name st else ''student''),
         prompt_studentMessage = studentMessage,
         prompt_messageType = messageType_text,
         prompt_sentiment = sentiment_text,
         prompt_tone = tone \<rparr>)))))"

text \<open>
  From the response to the returned reply: \<^verbatim>\<open>JSON.parse(response.text.trim())\<close>, the
  test \<^verbatim>\<open>!parsedResponse.sentences || parsedResponse.sentences.length === 0\<close>, and
  the object returned.
\<close>

definition read_reply :: "json_parser \<Rightarrow> ai_outcome \<Rightarrow> js_error + GeneratedReply" where
  "read_reply parse outcome =
     (case outcome of
        Rejected e \<Rightarrow> Inl e
      | Resolved None \<Rightarrow> Inl (cannot_read ''undefined'' ''trim'')
      | Resolved (Some text) \<Rightarrow>
          bind_js (parse (trim text)) (\<lambda>parsedResponse.
          bind_js (get_prop parsedResponse ''sentences'') (\<lambda>ss.
            if \<not> truthy ss \<or> get_prop ss ''length'' = Inr (JNum 0)
            then Inl (Error EMPTY_REPLY_MESSAGE)
            else
              bind_js (get_prop parsedResponse ''toneDescription'') (\<lambda>td.
                Inr \<lparr> reply_sentences = ss,
                      reply_toneDescription = (if truthy td then td else JStr DEFAULT_TONE_DESCRIPTION) \<rparr>))))"

text \<open>The \<^verbatim>\<open>try\<close> block, with the requests it made.\<close>

definition generateBilingualReply_try ::
  "ai_service \<Rightarrow> json_parser \<Rightarrow> string \<Rightarrow> js_value \<Rightarrow> string \<Rightarrow> string \<Rightarrow> string \<Rightarrow> Student option
     \<Rightarrow> (js_error + GeneratedReply) \<times> event list" where
  "generateBilingualReply_try ai parse studentMessage context tone platform teacherName student =
     (case build_reply_prompt studentMessage context tone platform teacherName student of
        Inl e \<Rightarrow> (Inl e, [])
      | Inr p \<Rightarrow> (read_reply parse (ai p), [ModelCall p]))"

text \<open>
  The function with its \<^verbatim>\<open>catch\<close>, which logs the cause and throws a new error with
  the fixed message.
\<close>

definition generateBilingualReply ::
  "ai_service \<Rightarrow> json_parser \<Rightarrow> string \<Rightarrow> js_value \<Rightarrow> string \<Rightarrow> string \<Rightarrow> string \<Rightarrow> Student option
     \<Rightarrow> (js_error + GeneratedReply) \<times> event list" where
  "generateBilingualReply ai parse studentMessage context tone platform teacherName student =
     (case generateBilingualReply_try ai parse studentMessage context tone platform teacherName student of
        (Inr reply, evs) \<Rightarrow> (Inr reply, evs)
      | (Inl error, evs) \<Rightarrow>
          (Inl (Error GENERIC_FAILURE_MESSAGE),
           evs @ [ConsoleError ''Error generating bilingual reply:'' error]))"

section \<open>The option lists of \<^verbatim>\<open>constants.ts\<close>\<close>

text \<open>Each option is the pair of its \<^verbatim>\<open>value\<close> and its \<^verbatim>\<open>label\<close>.\<close>

definition TONE_OPTIONS :: "(string \<times> string) list" where
  "TONE_OPTIONS =
     [(ReplyTone_value FRIENDLY, [CHR 0xF0, CHR 0x9F, CHR 0x98, CHR 0x8A] @ '' Friendly''),
      (ReplyTone_value WARM_MOTIVATIONAL,
         [CHR 0xE2, CHR 0x98, CHR 0x80, CHR 0xEF, CHR 0xB8, CHR 0x8F] @ '' Warm & Motivational''),
      (ReplyTone_value FORMAL, [CHR 0xF0, CHR 0x9F, CHR 0x91, CHR 0x94] @ '' Professional''),
      (ReplyTone_value BRIEF_DIRECT, [CHR 0xE2, CHR 0x9A, CHR 0xA1] @ '' Brief & Direct''),
      (ReplyTone_value ISLAMIC, [CHR 0xF0, CHR 0x9F, CHR 0x95, CHR 0x8C] @ '' Islamic (Spiritual)''),
      (ReplyTone_value FOR_KIDS, [CHR 0xF0, CHR 0x9F, CHR 0xA7, CHR 0xB8] @ '' For Kids'')]"

definition PLATFORM_OPTIONS :: "(string \<times> string) list" where
  "PLATFORM_OPTIONS =
     [(IntegrationPlatform_value WHATSAPP, ''WhatsApp''),
      (IntegrationPlatform_value EMAIL, ''Email''),
      (IntegrationPlatform_value GENERIC, ''Generic Chat'')]"

section \<open>The component \<^verbatim>\<open>App\<close>\<close>

subsection \<open>Local storage and the hook \<^verbatim>\<open>useLocalStorage\<close>\<close>

text \<open>
  \<^verbatim>\<open>window.localStorage\<close>: a map from keys to strings. Reading and writing throw when
  the browser denies access to the storage, and writing throws when the quota is
  exceeded; the hook catches both.
\<close>

record localStorage =
  items :: "string \<rightharpoonup> string"
  access_denied :: bool
  quota_exceeded :: bool

definition getItem :: "localStorage \<Rightarrow> string \<Rightarrow> js_error + string option" where
  "getItem st key =
     (if access_denied st then Inl (DOMException ''SecurityError'') else Inr (items st key))"

definition setItem :: "localStorage \<Rightarrow> string \<Rightarrow> string \<Rightarrow> js_error + localStorage" where
  "setItem st key text =
     (if access_denied st then Inl (DOMException ''SecurityError'')
      else if quota_exceeded st then Inl (DOMException ''QuotaExceededError'')
      else Inr (st\<lparr>items := (items st)(key \<mapsto> text)\<rparr>))"

text \<open>
  The hook is generic in the type \<open>'a\<close> of the stored value; \<^verbatim>\<open>JSON.parse\<close> and
  \<^verbatim>\<open>JSON.stringify\<close> at that type are the parameters \<open>parse\<close> and \<open>stringify\<close>.
  The initializer of \<^verbatim>\<open>useState\<close>: an absent item, and the empty string, are falsy
  and give the initial value.
\<close>

definition useLocalStorage_init ::
  "(string \<Rightarrow> js_error + 'a) \<Rightarrow> localStorage \<Rightarrow> string \<Rightarrow> 'a \<Rightarrow> 'a \<times> event list" where
  "useLocalStorage_init parse st key initialValue =
     (case bind_js (getItem st key) (\<lambda>item.
             case item of
               None \<Rightarrow> Inr initialValue
             | Some text \<Rightarrow> if text \<noteq> [] then parse text else Inr initialValue) of
        Inr v \<Rightarrow> (v, [])
      | Inl error \<Rightarrow> (initialValue, [ConsoleError [] error]))"

text \<open>
  \<^verbatim>\<open>React.SetStateAction\<close>: a new value, or a function of the current one, which may
  throw. \<^verbatim>\<open>setValue\<close> computes the value, sets the state and then evaluates
  \<^verbatim>\<open>window.localStorage.setItem(key, JSON.stringify(valueToStore))\<close>, all in one \<^verbatim>\<open>try\<close>:
  the storage object is fetched first (which throws when access is denied), then the
  value is serialised, then the item is written. A throwing updater leaves state and
  storage as they were; a throw after that leaves the state set and the storage as it
  was. Where \<^verbatim>\<open>JSON.stringify\<close> returns \<^verbatim>\<open>undefined\<close> (the result \<open>None\<close> of
  \<open>stringify\<close>), \<^verbatim>\<open>setItem\<close> stores the string \<^verbatim>\<open>undefined\<close>.
\<close>

datatype 'a SetStateAction = NewValue 'a | Updater "'a \<Rightarrow> js_error + 'a"

definition window_localStorage :: "localStorage \<Rightarrow> js_error + localStorage" where
  "window_localStorage st =
     (if access_denied st then Inl (DOMException ''SecurityError'') else Inr st)"

definition setValue ::
  "('a \<Rightarrow> js_error + string option) \<Rightarrow> string \<Rightarrow> 'a SetStateAction \<Rightarrow> 'a \<times> localStorage
     \<Rightarrow> ('a \<times> localStorage) \<times> event list" where
  "setValue stringify key action hook =
     (let storedValue = fst hook;
          st = snd hook
      in case (case action of Updater f \<Rightarrow> f storedValue | NewValue v \<Rightarrow> Inr v) of
           Inl error \<Rightarrow> ((storedValue, st), [ConsoleError [] error])
         | Inr valueToStore \<Rightarrow>
             (case bind_js (window_localStorage st) (\<lambda>storage.
                   bind_js (stringify valueToStore) (\<lambda>serialised.
                     setItem storage key (case serialised of None \<Rightarrow> ''undefined'' | Some t \<Rightarrow> t))) of
                Inr st' \<Rightarrow> ((valueToStore, st'), [])
              | Inl error \<Rightarrow> ((valueToStore, st), [ConsoleError [] error])))"

subsection \<open>The settings\<close>

record AppSettings =
  teacherName :: string
  signature :: string
  platform :: string
  theme :: string

definition SETTINGS_KEY :: string where
  "SETTINGS_KEY = ''appSettings_v3''"

definition INITIAL_SETTINGS :: AppSettings where
  "INITIAL_SETTINGS =
     \<lparr> teacherName = ''Teacher'', signature = [],
       platform = IntegrationPlatform_value WHATSAPP, theme = ''dark'' \<rparr>"

text \<open>
  At run time the settings are the object of the literal in \<^verbatim>\<open>App\<close>, or whatever
  \<^verbatim>\<open>JSON.parse\<close> made of the stored text. The object of the literal has the four
  properties in the literal's order.
\<close>

definition settings_object :: "AppSettings \<Rightarrow> js_value" where
  "settings_object s =
     JObj [(''teacherName'', JStr (teacherName s)), (''signature'', JStr (signature s)),
           (''platform'', JStr (platform s)), (''theme'', JStr (theme s))]"

text \<open>
  The spread \<^verbatim>\<open>{...s}\<close> copies the own enumerable properties of \<open>s\<close> in their order: the
  properties of an object, the elements of an array under their indices, the code units
  of a string under their indices; a boolean, a number, \<^verbatim>\<open>null\<close> and \<^verbatim>\<open>undefined\<close> have
  none. A string of one code unit is one to three bytes; a character of four bytes is
  two code units, the surrogates, each written as three bytes.
\<close>

fun index_key :: "nat \<Rightarrow> string" where
  "index_key n =
     (if n < 10 then [char_of (0x30 + n)]
      else index_key (n div 10) @ [char_of (0x30 + n mod 10)])"

definition three_bytes :: "nat \<Rightarrow> string" where
  "three_bytes u =
     [char_of (0xE0 + u div 0x1000), char_of (0x80 + u div 0x40 mod 0x40), char_of (0x80 + u mod 0x40)]"

definition surrogate_pair :: "char \<Rightarrow> char \<Rightarrow> char \<Rightarrow> char \<Rightarrow> string list" where
  "surrogate_pair a b c d =
     (let code_point = ((of_char a mod 8 * 0x40 + of_char b mod 0x40) * 0x40 + of_char c mod 0x40) * 0x40
                         + of_char d mod 0x40;
          u = code_point - 0x10000
      in [three_bytes (0xD800 + u div 0x400), three_bytes (0xDC00 + u mod 0x400)])"

fun code_units :: "string \<Rightarrow> string list" where
  "code_units (a # b # c # d # s) =
     (if (of_char a :: nat) < 0x80 then [a] # code_units (b # c # d # s)
      else if (of_char a :: nat) < 0xE0 then [a, b] # code_units (c # d # s)
      else if (of_char a :: nat) < 0xF0 then [a, b, c] # code_units (d # s)
      else surrogate_pair a b c d @ code_units s)"
| "code_units [a, b, c] =
     (if (of_char a :: nat) < 0x80 then [a] # code_units [b, c]
      else if (of_char a :: nat) < 0xE0 then [a, b] # code_units [c]
      else [[a, b, c]])"
| "code_units [a, b] = (if (of_char a :: nat) < 0x80 then [a] # code_units [b] else [[a, b]])"
| "code_units [a] = [[a]]"
| "code_units [] = []"

fun own_properties :: "js_value \<Rightarrow> (string \<times> js_value) list" where
  "own_properties (JObj kvs) = kvs"
| "own_properties (JArr xs) = zip (map index_key [0..<length xs]) xs"
| "own_properties (JStr s) = zip (map index_key [0..<length (code_units s)]) (map JStr (code_units s))"
| "own_properties (JBool b) = []"
| "own_properties (JNum n) = []"
| "own_properties JNull = []"
| "own_properties JUndefined = []"

text \<open>
  The updater of the header's theme button,
  \<^verbatim>\<open>s => ({...s, theme: s.theme === 'dark' ? 'light' : 'dark'})\<close>: the properties of \<open>s\<close>
  with \<^verbatim>\<open>theme\<close> replaced where it stands, or added last. Reading \<^verbatim>\<open>s.theme\<close> throws
  when \<open>s\<close> is \<^verbatim>\<open>null\<close> or \<^verbatim>\<open>undefined\<close>.
\<close>

definition toggleTheme :: "js_value \<Rightarrow> js_error + js_value" where
  "toggleTheme s =
     bind_js (get_prop s ''theme'') (\<lambda>current.
       Inr (JObj (put_property ''theme'' (JStr (if current = JStr ''dark'' then ''light'' else ''dark''))
                    (own_properties s))))"

subsection \<open>The state of the component\<close>

text \<open>
  The \<^verbatim>\<open>useState\<close> variables the handlers below read or write. What the model returns
  is stored unchecked, so those variables hold \<open>js_value\<close>s; \<^verbatim>\<open>error\<close> is a string
  or \<^verbatim>\<open>null\<close>. The view, the settings dialog's flag, the recording flag and the tip of
  the footer (chosen at random) are left out.
\<close>

record app_state =
  studentMessage :: string
  selectedStudentId :: "string option"
  messageType :: js_value
  replyTone :: string
  detectedContext :: js_value
  isLoading :: bool
  progress :: GenerationProgress
  error :: "string option"
  replySentences :: js_value
  toneDescription :: js_value
  copyStatus :: "(string \<times> string) option"
  students :: "Student list"
  settings :: AppSettings

definition NO_PROGRESS :: GenerationProgress where
  "NO_PROGRESS =
     \<lparr> p_reading = None, p_detecting = None, p_drafting = None, p_translating = None,
       p_done = None, p_error = None \<rparr>"

definition initial_state :: "AppSettings \<Rightarrow> Student list \<Rightarrow> app_state" where
  "initial_state stored_settings stored_students =
     \<lparr> studentMessage = [], selectedStudentId = None,
       messageType = JStr (MessageType_value NEW_STUDENT),
       replyTone = ReplyTone_value FRIENDLY,
       detectedContext = JNull, isLoading = False, progress = NO_PROGRESS, error = None,
       replySentences = JArr [], toneDescription = JStr [], copyStatus = None,
       students = stored_students, settings = stored_settings \<rparr>"

text \<open>
  A run is the state together with the effects so far. Each setter changes its
  variable and records the call.
\<close>

type_synonym run = "app_state \<times> event list"

definition emit :: "event list \<Rightarrow> run \<Rightarrow> run" where
  "emit evs r = (fst r, snd r @ evs)"

definition setIsLoading :: "bool \<Rightarrow> run \<Rightarrow> run" where
  "setIsLoading b r = ((fst r)\<lparr>isLoading := b\<rparr>, snd r @ [SetIsLoading b])"

definition setError :: "string option \<Rightarrow> run \<Rightarrow> run" where
  "setError e r = ((fst r)\<lparr>error := e\<rparr>, snd r @ [SetError e])"

definition setReplySentences :: "js_value \<Rightarrow> run \<Rightarrow> run" where
  "setReplySentences v r = ((fst r)\<lparr>replySentences := v\<rparr>, snd r @ [SetReplySentences v])"

definition setToneDescription :: "js_value \<Rightarrow> run \<Rightarrow> run" where
  "setToneDescription v r = ((fst r)\<lparr>toneDescription := v\<rparr>, snd r @ [SetToneDescription v])"

definition setDetectedContext :: "js_value \<Rightarrow> run \<Rightarrow> run" where
  "setDetectedContext v r = ((fst r)\<lparr>detectedContext := v\<rparr>, snd r @ [SetDetectedContext v])"

definition setMessageType :: "js_value \<Rightarrow> run \<Rightarrow> run" where
  "setMessageType v r = ((fst r)\<lparr>messageType := v\<rparr>, snd r @ [SetMessageType v])"

text \<open>\<^verbatim>\<open>setProgress\<close> with a function of the previous value (a constant one for a plain value).\<close>

definition setProgress :: "(GenerationProgress \<Rightarrow> GenerationProgress) \<Rightarrow> run \<Rightarrow> run" where
  "setProgress f r =
     (let p = f (progress (fst r)) in ((fst r)\<lparr>progress := p\<rparr>, snd r @ [SetProgress p]))"

subsection \<open>\<^verbatim>\<open>handleGenerateReply\<close>\<close>

definition READING :: GenerationProgress where
  "READING = NO_PROGRESS\<lparr>p_reading := Some True\<rparr>"

definition EMPTY_MESSAGE_ERROR :: string where
  "EMPTY_MESSAGE_ERROR = ''Please enter a student message.''"

definition UNEXPECTED_ERROR :: string where
  "UNEXPECTED_ERROR = ''An unexpected error occurred.''"

text \<open>\<^verbatim>\<open>students.find(s => s.id === selectedStudentId)\<close>: the first match, if any.\<close>

definition selectedStudent_of :: "app_state \<Rightarrow> Student option" where
  "selectedStudent_of s = find (\<lambda>st. Some (student_id st) = selectedStudentId s) (students s)"

text \<open>\<^verbatim>\<open>e.message || "An unexpected error occurred."\<close>\<close>

definition shown_error :: "js_error \<Rightarrow> string" where
  "shown_error e = (if error_message e \<noteq> [] then error_message e else UNEXPECTED_ERROR)"

text \<open>
  The \<^verbatim>\<open>try\<close> block. \<open>fm\<close> is \<^verbatim>\<open>finalMessage\<close>, and \<open>cl\<close> is the state the
  callback closed over (the values of
  \<^verbatim>\<open>students\<close>, \<^verbatim>\<open>selectedStudentId\<close>, \<^verbatim>\<open>replyTone\<close> and \<^verbatim>\<open>settings\<close> at the
  render that created it). Each \<^verbatim>\<open>await\<close> continues with the resolved value or
  throws the rejection. \<^verbatim>\<open>context.messageType\<close> throws when the context is \<^verbatim>\<open>null\<close>.
\<close>

definition handleGenerateReply_try ::
  "ai_service \<Rightarrow> json_parser \<Rightarrow> app_state \<Rightarrow> string \<Rightarrow> run \<Rightarrow> (js_error + unit) \<times> run" where
  "handleGenerateReply_try ai parse cl fm r0 =
     (let r1 = setProgress (\<lambda>p. p\<lparr>p_reading := Some False, p_detecting := Some True\<rparr>) r0;
          analysis = analyzeContext ai parse fm;
          r2 = emit (snd analysis) r1
      in case fst analysis of
           Inl e \<Rightarrow> (Inl e, r2)
         | Inr context \<Rightarrow>
             (let r3 = setDetectedContext context r2
              in case get_prop context ''messageType'' of
                   Inl e \<Rightarrow> (Inl e, r3)
                 | Inr mt \<Rightarrow>
                     (let r4 = setMessageType mt r3;
                          r5 = setProgress (\<lambda>p. p\<lparr>p_detecting := Some False, p_drafting := Some True\<rparr>) r4;
                          selectedStudent = selectedStudent_of cl;
                          generation =
                            generateBilingualReply ai parse fm context (replyTone cl)
                              (platform (settings cl)) (teacherName (settings cl)) selectedStudent;
                          r6 = emit (snd generation) r5
                      in case fst generation of
                           Inl e \<Rightarrow> (Inl e, r6)
                         | Inr result \<Rightarrow>
                             (let r7 = setProgress (\<lambda>p. p\<lparr>p_drafting := Some False, p_done := Some True\<rparr>) r6;
                                  r8 = setReplySentences (reply_sentences result) r7;
                                  r9 = setToneDescription (reply_toneDescription result) r8
                              in (Inr (), r9)))))"

text \<open>\<^verbatim>\<open>message || studentMessage\<close>: the argument unless it is absent or empty.\<close>

definition finalMessage :: "string option \<Rightarrow> app_state \<Rightarrow> string" where
  "finalMessage message s =
     (case message of
        Some m \<Rightarrow> if m \<noteq> [] then m else studentMessage s
      | None \<Rightarrow> studentMessage s)"

text \<open>
  The handler: the guard on a blank message, the resets, the \<^verbatim>\<open>try\<close> block, the
  \<^verbatim>\<open>catch\<close> and the \<^verbatim>\<open>finally\<close>. \<open>message\<close> is the optional argument; \<open>s\<close> is
  the state at the call.
\<close>

definition handleGenerateReply ::
  "ai_service \<Rightarrow> json_parser \<Rightarrow> string option \<Rightarrow> app_state \<Rightarrow> run" where
  "handleGenerateReply ai parse message s =
     (let fm = finalMessage message s
      in if trim fm = [] then setError (Some EMPTY_MESSAGE_ERROR) (s, [])
         else
           (let r0 = setProgress (\<lambda>p. READING)
                      (setToneDescription (JStr [])
                        (setReplySentences (JArr [])
                          (setError None
                            (setIsLoading True (s, [])))));
                attempt = handleGenerateReply_try ai parse s fm r0;
                r = (case fst attempt of
                       Inr u \<Rightarrow> snd attempt
                     | Inl e \<Rightarrow>
                         setProgress (\<lambda>p. NO_PROGRESS\<lparr>p_error := Some (error_message e)\<rparr>)
                           (setError (Some (shown_error e)) (snd attempt)))
            in setIsLoading False r))"

text \<open>
  Names for the values the handler gives to the progress indicator, for the events of
  its resets, and for the requests and the progress values among the events of a run.
\<close>

definition DETECTING :: GenerationProgress where
  "DETECTING = READING\<lparr>p_reading := Some False, p_detecting := Some True\<rparr>"

definition DRAFTING :: GenerationProgress where
  "DRAFTING = DETECTING\<lparr>p_detecting := Some False, p_drafting := Some True\<rparr>"

definition COMPLETED :: GenerationProgress where
  "COMPLETED = DRAFTING\<lparr>p_drafting := Some False, p_done := Some True\<rparr>"

definition FAILED :: "string \<Rightarrow> GenerationProgress" where
  "FAILED m = NO_PROGRESS\<lparr>p_error := Some m\<rparr>"

definition FAILED_RUN_END :: "js_error \<Rightarrow> event list" where
  "FAILED_RUN_END e =
     [SetError (Some (shown_error e)), SetProgress (FAILED (error_message e)), SetIsLoading False]"

definition RESETS :: "event list" where
  "RESETS =
     [SetIsLoading True, SetError None, SetReplySentences (JArr []), SetToneDescription (JStr []),
      SetProgress READING]"

fun model_calls :: "event list \<Rightarrow> prompt list" where
  "model_calls [] = []"
| "model_calls (ModelCall p # evs) = p # model_calls evs"
| "model_calls (ev # evs) = model_calls evs"

fun progress_values :: "event list \<Rightarrow> GenerationProgress list" where
  "progress_values [] = []"
| "progress_values (SetProgress p # evs) = p # progress_values evs"
| "progress_values (ev # evs) = progress_values evs"

subsection \<open>The tone select and the copy button\<close>

text \<open>
  \<^verbatim>\<open>onChange={e => setReplyTone(e.target.value as ReplyTone)}\<close>: the cast checks
  nothing at run time.
\<close>

definition onChange_replyTone :: "string \<Rightarrow> app_state \<Rightarrow> app_state" where
  "onChange_replyTone target_value s = s\<lparr>replyTone := target_value\<rparr>"

text \<open>
  \<^verbatim>\<open>navigator.clipboard\<close> is \<^verbatim>\<open>undefined\<close> where the browser does not expose the
  Clipboard API (a page outside a secure context, for one). Where it exists,
  \<^verbatim>\<open>writeText\<close> returns a promise that is fulfilled or rejected. The result is \<open>Inl\<close>
  for an error thrown to the caller, and otherwise the state once the promise has
  settled: the \<^verbatim>\<open>then\<close> callback sets \<^verbatim>\<open>copyStatus\<close>, a rejection is handled by
  nobody and changes nothing. The timer that clears \<^verbatim>\<open>copyStatus\<close> two seconds later
  is not modelled.
\<close>

type_synonym clipboard = "(string \<Rightarrow> js_error + unit) option"

definition handleCopyToClipboard ::
  "clipboard \<Rightarrow> string \<Rightarrow> string \<Rightarrow> string \<Rightarrow> app_state \<Rightarrow> js_error + app_state" where
  "handleCopyToClipboard navigator_clipboard text ident lang s =
     (case navigator_clipboard of
        None \<Rightarrow> Inl (cannot_read ''undefined'' ''writeText'')
      | Some writeText \<Rightarrow>
          (case writeText text of
             Inr fulfilled \<Rightarrow> Inr (s\<lparr>copyStatus := Some (ident, lang)\<rparr>)
           | Inl rejected \<Rightarrow> Inr s))"

section \<open>Concrete environments\<close>

text \<open>
  For the concrete runs below: a parser given by its values on the texts of the run
  (any other text is a syntax error there), a model service that gives one outcome to
  the analysis request and another to the reply request, and a clipboard whose writes
  are all fulfilled.
\<close>

definition parse_table :: "(string \<times> 'a) list \<Rightarrow> string \<Rightarrow> js_error + 'a" where
  "parse_table tbl text =
     (case map_of tbl text of
        Some v \<Rightarrow> Inr v
      | None \<Rightarrow> Inl (SyntaxError ''Unexpected token''))"

definition answers :: "ai_outcome \<Rightarrow> ai_outcome \<Rightarrow> ai_service" where
  "answers analysis reply p = (case p of AnalysisPrompt m \<Rightarrow> analysis | ReplyPrompt q \<Rightarrow> reply)"

definition NETWORK_ERROR :: js_error where
  "NETWORK_ERROR = TypeError ''Failed to fetch''"

definition granted_clipboard :: clipboard where
  "granted_clipboard = Some (\<lambda>text. Inr ())"

text \<open>
  The reply prompt for the message \<^verbatim>\<open>Hello\<close>, the default context, the tone Friendly,
  the platform WhatsApp, the teacher name Teacher and no selected student.
\<close>

definition SAMPLE_PROMPT :: prompt where
  "SAMPLE_PROMPT =
     ReplyPrompt \<lparr> prompt_teacherName = ''Teacher'', prompt_platform = ''WhatsApp'',
       prompt_studentName = ''student'', prompt_studentMessage = ''Hello'',
       prompt_messageType = JStr ''General question'', prompt_sentiment = JStr ''Neutral'',
       prompt_tone = ''Friendly'' \<rparr>"

text \<open>
  A state in which the teacher has typed \<^verbatim>\<open>Hello\<close>, and one that still shows the reply
  of an earlier run; a response text for each stage with the value \<^verbatim>\<open>JSON.parse\<close> gives
  it, and an analysis whose \<^verbatim>\<open>messageType\<close> is an object with an own property
  \<^verbatim>\<open>toString\<close>.
\<close>

definition SAMPLE_STATE :: app_state where
  "SAMPLE_STATE = (initial_state INITIAL_SETTINGS [])\<lparr>studentMessage := ''Hello''\<rparr>"

definition SAMPLE_SENTENCES :: js_value where
  "SAMPLE_SENTENCES =
     JArr [JObj [(''englishSentence'', JStr ''Welcome.''), (''arabicSentence'', JStr ''Marhaban.'')]]"

definition SAMPLE_STATE_WITH_REPLY :: app_state where
  "SAMPLE_STATE_WITH_REPLY =
     SAMPLE_STATE\<lparr>replySentences := SAMPLE_SENTENCES, toneDescription := JStr ''Warm''\<rparr>"

definition CONTEXT_TEXT :: string where
  \<open>CONTEXT_TEXT =
     ''{"messageType":"General question","sentiment":"Neutral","detectedLanguage":"unknown"}''\<close>

definition REPLY_TEXT :: string where
  \<open>REPLY_TEXT =
     ''{"sentences":[{"englishSentence":"Welcome.","arabicSentence":"Marhaban."}],"toneDescription":"Warm"}''\<close>

definition UNPRINTABLE_CONTEXT_TEXT :: string where
  \<open>UNPRINTABLE_CONTEXT_TEXT = ''{"messageType":{"toString":1},"sentiment":"Neutral"}''\<close>

definition UNPRINTABLE_CONTEXT :: js_value where
  "UNPRINTABLE_CONTEXT =
     JObj [(''messageType'', JObj [(''toString'', JNum 1)]), (''sentiment'', JStr ''Neutral'')]"

definition SAMPLE_PARSE :: json_parser where
  "SAMPLE_PARSE =
     parse_table
       [(CONTEXT_TEXT, DEFAULT_CONTEXT),
        (REPLY_TEXT, JObj [(''sentences'', SAMPLE_SENTENCES), (''toneDescription'', JStr ''Warm'')]),
        (''null'', JNull),
        (UNPRINTABLE_CONTEXT_TEXT, UNPRINTABLE_CONTEXT)]"

text \<open>
  Four model services: one that answers both requests well, one whose analysis is the
  JSON text \<^verbatim>\<open>null\<close>, one whose reply request is rejected, and one whose analysis
  has the \<^verbatim>\<open>messageType\<close> that cannot be converted to a string.
\<close>

definition SAMPLE_SERVICE :: ai_service where
  "SAMPLE_SERVICE = answers (Resolved (Some CONTEXT_TEXT)) (Resolved (Some REPLY_TEXT))"

definition NULL_CONTEXT_SERVICE :: ai_service where
  "NULL_CONTEXT_SERVICE = answers (Resolved (Some ''null'')) (Resolved (Some REPLY_TEXT))"

definition FAILING_REPLY_SERVICE :: ai_service where
  "FAILING_REPLY_SERVICE = answers (Resolved (Some CONTEXT_TEXT)) (Rejected NETWORK_ERROR)"

definition UNPRINTABLE_CONTEXT_SERVICE :: ai_service where
  "UNPRINTABLE_CONTEXT_SERVICE = answers (Resolved (Some UNPRINTABLE_CONTEXT_TEXT)) (Resolved (Some REPLY_TEXT))"

text \<open>
  An empty, working storage, and three settings texts: the initial settings with the
  theme toggled, with the platform Email, and with a platform that is no member of
  \<^verbatim>\<open>IntegrationPlatform\<close>.
\<close>

definition EMPTY_STORAGE :: localStorage where
  "EMPTY_STORAGE = \<lparr> items = Map.empty, access_denied = False, quota_exceeded = False \<rparr>"

definition LIGHT_SETTINGS_TEXT :: string where
  \<open>LIGHT_SETTINGS_TEXT =
     ''{"teacherName":"Teacher","signature":"","platform":"WhatsApp","theme":"light"}''\<close>

definition TELEGRAM_SETTINGS_TEXT :: string where
  \<open>TELEGRAM_SETTINGS_TEXT =
     ''{"teacherName":"Teacher","signature":"","platform":"Telegram","theme":"dark"}''\<close>

definition EMAIL_SETTINGS_TEXT :: string where
  \<open>EMAIL_SETTINGS_TEXT =
     ''{"teacherName":"Teacher","signature":"","platform":"Email","theme":"dark"}''\<close>

text \<open>
  A \<^verbatim>\<open>JSON.parse\<close> and a \<^verbatim>\<open>JSON.stringify\<close> for the examples of the theme: they are the
  two models where these give a result, which covers every text and value of the
  examples; on the others this parser rejects the text and this serialiser returns
  \<^verbatim>\<open>undefined\<close>. Then the settings of the literal, as an object, with the theme dark and
  light; and stored settings with the theme first, another teacher's name and a property
  the application does not know.
\<close>

definition model_parse :: json_parser where
  "model_parse t =
     (case JSON_parse_model t of
        Some v \<Rightarrow> Inr v
      | None \<Rightarrow> Inl (SyntaxError ''Unexpected token''))"

definition model_stringify :: "js_value \<Rightarrow> js_error + string option" where
  "model_stringify v = Inr (JSON_stringify_model v)"

definition DARK_SETTINGS :: js_value where
  "DARK_SETTINGS = settings_object INITIAL_SETTINGS"

definition LIGHT_SETTINGS :: js_value where
  "LIGHT_SETTINGS = settings_object (INITIAL_SETTINGS\<lparr>theme := ''light''\<rparr>)"

definition REORDERED_SETTINGS :: js_value where
  "REORDERED_SETTINGS =
     JObj [(''theme'', JStr ''light''), (''teacherName'', JStr ''Ms. Sara''), (''beta'', JBool True)]"

definition REORDERED_DARK_SETTINGS :: js_value where
  "REORDERED_DARK_SETTINGS =
     JObj [(''theme'', JStr ''dark''), (''teacherName'', JStr ''Ms. Sara''), (''beta'', JBool True)]"

definition REORDERED_DARK_SETTINGS_TEXT :: string where
  \<open>REORDERED_DARK_SETTINGS_TEXT = ''{"theme":"dark","teacherName":"Ms. Sara","beta":true}''\<close>

text \<open>A storage that takes no more: every write throws.\<close>

definition FULL_STORAGE :: localStorage where
  "FULL_STORAGE = EMPTY_STORAGE\<lparr>quota_exceeded := True\<rparr>"

text \<open>The state after a first, successful run on \<^verbatim>\<open>Hello\<close>.\<close>

definition AFTER_FIRST_RUN :: app_state where
  "AFTER_FIRST_RUN = fst (handleGenerateReply SAMPLE_SERVICE SAMPLE_PARSE None SAMPLE_STATE)"

section \<open>The context analyzer\<close>

lemma bind_js_Inl [simp]: "bind_js (Inl e) f = Inl e"
  by (simp add: bind_js_def)

lemma bind_js_Inr [simp]: "bind_js (Inr v) f = f v"
  by (simp add: bind_js_def)

lemma DEFAULT_CONTEXT_conforms: "is_AnalyzedContext DEFAULT_CONTEXT"
  by (simp add: is_AnalyzedContext_def DEFAULT_CONTEXT_def MessageType_values_def Sentiment_values_def)

lemma analyzeContext_try_Inr:
  "analyzeContext_try ai parse m = Inr v \<Longrightarrow>
     \<exists>text. ai (AnalysisPrompt m) = Resolved (Some text) \<and> parse (trim text) = Inr v"
  by (auto simp: analyzeContext_try_def split: ai_outcome.splits option.splits)

text \<open>
  Claim C1, as the code has it. For every message, empty or not, and whatever the model
  call returns, \<^verbatim>\<open>analyzeContext\<close> never raises to its caller: it resolves with a value.
  That value is the fixed default, which conforms to the \<^verbatim>\<open>AnalyzedContext\<close> schema,
  or it is the parsed response text exactly as \<^verbatim>\<open>JSON.parse\<close> gave it: nothing checks
  the parsed value against the schema, so the result conforms when the parsed response
  does.
\<close>

theorem analyzeContext_never_raises:
  "\<exists>v. fst (analyzeContext ai parse m) = Inr v
     \<and> (v = DEFAULT_CONTEXT
        \<or> (\<exists>text. ai (AnalysisPrompt m) = Resolved (Some text) \<and> parse (trim text) = Inr v))
     \<and> is_AnalyzedContext DEFAULT_CONTEXT"
proof (cases "analyzeContext_try ai parse m")
  case (Inl e)
  then have "fst (analyzeContext ai parse m) = Inr DEFAULT_CONTEXT"
    by (simp add: analyzeContext_def)
  then show ?thesis
    using DEFAULT_CONTEXT_conforms by blast
next
  case (Inr v)
  then have "fst (analyzeContext ai parse m) = Inr v"
    by (simp add: analyzeContext_def)
  then show ?thesis
    using analyzeContext_try_Inr [OF Inr] DEFAULT_CONTEXT_conforms by blast
qed

text \<open>
  The claim as stated fails: for the message \<^verbatim>\<open>Hello\<close>, a model that answers with the
  text \<^verbatim>\<open>{}\<close> makes \<^verbatim>\<open>analyzeContext\<close> return the empty object, which has none of the
  three fields.
\<close>

theorem analyzeContext_nonconforming_counterexample:
  \<open>fst (analyzeContext (answers (Resolved (Some ''{}'')) (Rejected NETWORK_ERROR))
          (parse_table [(''{}'', JObj [])]) ''Hello'') = Inr (JObj [])
   \<and> \<not> is_AnalyzedContext (JObj [])\<close>
  by (simp add: analyzeContext_def analyzeContext_try_def answers_def parse_table_def
      is_AnalyzedContext_def trim_def trimEnd_def ws1_def ws2_def ws3_def)

text \<open>
  Claim C4, as the code has it. When the model call rejects, when its response has no
  text, or when \<^verbatim>\<open>JSON.parse\<close> throws on the text, \<^verbatim>\<open>analyzeContext\<close> logs the cause
  and returns exactly the fixed default (General question, Neutral, unknown). A response
  that parses is returned as parsed, whether or not it fits the schema (see C1).
\<close>

theorem analyzeContext_failure_default:
  assumes "ai (AnalysisPrompt m) = Rejected cause
         \<or> (ai (AnalysisPrompt m) = Resolved None \<and> cause = cannot_read ''undefined'' ''trim'')
         \<or> (\<exists>text. ai (AnalysisPrompt m) = Resolved (Some text) \<and> parse (trim text) = Inl cause)"
  shows "analyzeContext ai parse m =
           (Inr DEFAULT_CONTEXT,
            [ModelCall (AnalysisPrompt m), ConsoleError ''Error analyzing context:'' cause])"
proof -
  from assms have "analyzeContext_try ai parse m = Inl cause"
    by (auto simp: analyzeContext_try_def)
  then show ?thesis
    by (simp add: analyzeContext_def)
qed

text \<open>A rejected request (a network error) on the message \<^verbatim>\<open>Hello\<close>.\<close>

theorem analyzeContext_failure_default_witness:
  "analyzeContext (answers (Rejected NETWORK_ERROR) (Rejected NETWORK_ERROR)) (parse_table []) ''Hello'' =
     (Inr DEFAULT_CONTEXT,
      [ModelCall (AnalysisPrompt ''Hello''), ConsoleError ''Error analyzing context:'' NETWORK_ERROR])"
proof -
  have h: "answers (Rejected NETWORK_ERROR) (Rejected NETWORK_ERROR) (AnalysisPrompt ''Hello'')
             = Rejected NETWORK_ERROR"
    by (simp add: answers_def)
  show ?thesis
    using analyzeContext_failure_default
      [of "answers (Rejected NETWORK_ERROR) (Rejected NETWORK_ERROR)" "''Hello''" NETWORK_ERROR "parse_table []"] h
    by simp
qed

text \<open>
  The claim as stated fails on a schema violation: the text
  \<^verbatim>\<open>{"messageType":"Spam"}\<close> parses, so no error is raised and the parsed object is
  returned instead of the default.
\<close>

theorem analyzeContext_schema_violation_counterexample:
  \<open>fst (analyzeContext (answers (Resolved (Some ''{"messageType":"Spam"}'')) (Rejected NETWORK_ERROR))
          (parse_table [(''{"messageType":"Spam"}'', JObj [(''messageType'', JStr ''Spam'')])]) ''Hello'')
     = Inr (JObj [(''messageType'', JStr ''Spam'')])
   \<and> \<not> is_AnalyzedContext (JObj [(''messageType'', JStr ''Spam'')])
   \<and> JObj [(''messageType'', JStr ''Spam'')] \<noteq> DEFAULT_CONTEXT\<close>
  by (simp add: analyzeContext_def analyzeContext_try_def answers_def parse_table_def
      is_AnalyzedContext_def DEFAULT_CONTEXT_def trim_def trimEnd_def ws1_def ws2_def ws3_def)

section \<open>The reply generator\<close>

lemma generateBilingualReply_of_try:
  "generateBilingualReply ai parse m ctx tone pf name st =
     (case generateBilingualReply_try ai parse m ctx tone pf name st of
        (Inr reply, evs) \<Rightarrow> (Inr reply, evs)
      | (Inl cause, evs) \<Rightarrow>
          (Inl (Error GENERIC_FAILURE_MESSAGE),
           evs @ [ConsoleError ''Error generating bilingual reply:'' cause]))"
  by (simp add: generateBilingualReply_def)

lemma generateBilingualReply_try_built:
  "build_reply_prompt m ctx tone pf name st = Inr p \<Longrightarrow>
     generateBilingualReply_try ai parse m ctx tone pf name st = (read_reply parse (ai p), [ModelCall p])"
  by (simp add: generateBilingualReply_try_def)

lemma read_reply_empty:
  assumes "parse (trim text) = Inr v"
    and "get_prop v ''sentences'' = Inr JUndefined \<or> get_prop v ''sentences'' = Inr (JArr [])"
  shows "read_reply parse (Resolved (Some text)) = Inl (Error EMPTY_REPLY_MESSAGE)"
  using assms by (auto simp: read_reply_def)

lemma build_sample:
  "build_reply_prompt ''Hello'' DEFAULT_CONTEXT ''Friendly'' ''WhatsApp'' ''Teacher'' None = Inr SAMPLE_PROMPT"
  by (simp add: build_reply_prompt_def substituted_def DEFAULT_CONTEXT_def SAMPLE_PROMPT_def)

lemma read_reply_cause:
  "read_reply parse (Rejected c) = Inl c"
  "read_reply parse (Resolved None) = Inl (cannot_read ''undefined'' ''trim'')"
  "parse (trim text) = Inl c \<Longrightarrow> read_reply parse (Resolved (Some text)) = Inl c"
  "parse (trim text) = Inr v \<Longrightarrow> get_prop v ''sentences'' = Inl c \<Longrightarrow>
     read_reply parse (Resolved (Some text)) = Inl c"
  "parse (trim text) = Inr v \<Longrightarrow> get_prop v ''sentences'' = Inr ss \<Longrightarrow>
     \<not> truthy ss \<or> get_prop ss ''length'' = Inr (JNum 0) \<Longrightarrow>
     read_reply parse (Resolved (Some text)) = Inl (Error EMPTY_REPLY_MESSAGE)"
  by (simp_all add: read_reply_def)

lemma generateBilingualReply_try_unbuilt:
  "build_reply_prompt m ctx tone pf name st = Inl c \<Longrightarrow>
     generateBilingualReply_try ai parse m ctx tone pf name st = (Inl c, [])"
  by (simp add: generateBilingualReply_try_def)

text \<open>
  Claim C2. When the request was made and the response text parses to a value whose
  \<^verbatim>\<open>sentences\<close> property is missing or is the empty array, \<^verbatim>\<open>generateBilingualReply\<close>
  raises: the empty-reply error is thrown inside the \<^verbatim>\<open>try\<close> block, logged by the
  \<^verbatim>\<open>catch\<close>, and the caller gets the same generic error as for any hard failure. No
  reply value, partial or empty, is returned.
\<close>

theorem generateBilingualReply_empty_raises:
  assumes "build_reply_prompt m ctx tone pf name st = Inr p"
    and "ai p = Resolved (Some text)"
    and "parse (trim text) = Inr v"
    and "get_prop v ''sentences'' = Inr JUndefined \<or> get_prop v ''sentences'' = Inr (JArr [])"
  shows "generateBilingualReply ai parse m ctx tone pf name st =
           (Inl (Error GENERIC_FAILURE_MESSAGE),
            [ModelCall p, ConsoleError ''Error generating bilingual reply:'' (Error EMPTY_REPLY_MESSAGE)])"
proof -
  have "read_reply parse (ai p) = Inl (Error EMPTY_REPLY_MESSAGE)"
    using assms(2-4) read_reply_empty [of parse "text" v] by simp
  then show ?thesis
    by (simp add: generateBilingualReply_of_try generateBilingualReply_try_built [OF assms(1)])
qed

text \<open>The model answers the reply request with the text \<^verbatim>\<open>{"sentences":[]}\<close>.\<close>

theorem generateBilingualReply_empty_raises_witness:
  \<open>generateBilingualReply (answers (Rejected NETWORK_ERROR) (Resolved (Some ''{"sentences":[]}'')))
     (parse_table [(''{"sentences":[]}'', JObj [(''sentences'', JArr [])])])
     ''Hello'' DEFAULT_CONTEXT ''Friendly'' ''WhatsApp'' ''Teacher'' None =
   (Inl (Error GENERIC_FAILURE_MESSAGE),
    [ModelCall SAMPLE_PROMPT,
     ConsoleError ''Error generating bilingual reply:'' (Error EMPTY_REPLY_MESSAGE)])\<close>
proof -
  have a: \<open>answers (Rejected NETWORK_ERROR) (Resolved (Some ''{"sentences":[]}'')) SAMPLE_PROMPT
            = Resolved (Some ''{"sentences":[]}'')\<close>
    by (simp add: answers_def SAMPLE_PROMPT_def)
  have b: \<open>parse_table [(''{"sentences":[]}'', JObj [(''sentences'', JArr [])])] (trim ''{"sentences":[]}'')
            = Inr (JObj [(''sentences'', JArr [])])\<close>
    by (simp add: parse_table_def trim_def trimEnd_def ws1_def ws2_def ws3_def)
  have c: "get_prop (JObj [(''sentences'', JArr [])]) ''sentences'' = Inr JUndefined
         \<or> get_prop (JObj [(''sentences'', JArr [])]) ''sentences'' = Inr (JArr [])"
    by simp
  show ?thesis
    using generateBilingualReply_empty_raises
      [of "''Hello''" DEFAULT_CONTEXT "''Friendly''" "''WhatsApp''" "''Teacher''" None SAMPLE_PROMPT
          \<open>answers (Rejected NETWORK_ERROR) (Resolved (Some ''{"sentences":[]}''))\<close>
          \<open>''{"sentences":[]}''\<close>
          \<open>parse_table [(''{"sentences":[]}'', JObj [(''sentences'', JArr [])])]\<close>
          "JObj [(''sentences'', JArr [])]"]
      build_sample a b c
    by blast
qed

text \<open>
  Claim C3. Every failure of \<^verbatim>\<open>generateBilingualReply\<close> raises the one error with the
  fixed generic message, and the cause is only logged. First, whenever the function
  raises, the error is that one and the last thing the function did was to log a cause
  with \<^verbatim>\<open>console.error\<close>. Second, when the template literal throws, nothing is
  requested and that cause is logged. Third, once the request is made, each of these
  raises the generic error with its own cause logged: a rejected request (network
  error), a response without text, a text that \<^verbatim>\<open>JSON.parse\<close> rejects, a parsed
  response whose \<^verbatim>\<open>sentences\<close> cannot be read, and a \<^verbatim>\<open>sentences\<close> that is missing,
  the empty array, or otherwise falsy or of length zero (the empty-reply error).
\<close>

theorem generateBilingualReply_failure_generic:
  "(\<forall>e. fst (generateBilingualReply ai parse m ctx tone pf name st) = Inl e \<longrightarrow>
       e = Error GENERIC_FAILURE_MESSAGE
       \<and> (\<exists>evs cause. snd (generateBilingualReply ai parse m ctx tone pf name st)
             = evs @ [ConsoleError ''Error generating bilingual reply:'' cause]))
   \<and> (build_reply_prompt m ctx tone pf name st = Inl c \<longrightarrow>
       generateBilingualReply ai parse m ctx tone pf name st =
         (Inl (Error GENERIC_FAILURE_MESSAGE),
          [ConsoleError ''Error generating bilingual reply:'' c]))
   \<and> (build_reply_prompt m ctx tone pf name st = Inr p
        \<and> (ai p = Rejected c
           \<or> (ai p = Resolved None \<and> c = cannot_read ''undefined'' ''trim'')
           \<or> (\<exists>text. ai p = Resolved (Some text) \<and> parse (trim text) = Inl c)
           \<or> (\<exists>text v. ai p = Resolved (Some text) \<and> parse (trim text) = Inr v
                 \<and> get_prop v ''sentences'' = Inl c)
           \<or> (\<exists>text v ss. ai p = Resolved (Some text) \<and> parse (trim text) = Inr v
                 \<and> get_prop v ''sentences'' = Inr ss
                 \<and> (ss = JUndefined \<or> ss = JArr [] \<or> \<not> truthy ss
                      \<or> get_prop ss ''length'' = Inr (JNum 0))
                 \<and> c = Error EMPTY_REPLY_MESSAGE)) \<longrightarrow>
       generateBilingualReply ai parse m ctx tone pf name st =
         (Inl (Error GENERIC_FAILURE_MESSAGE),
          [ModelCall p, ConsoleError ''Error generating bilingual reply:'' c]))"
proof (intro conjI allI impI)
  fix e
  assume "fst (generateBilingualReply ai parse m ctx tone pf name st) = Inl e"
  then show "e = Error GENERIC_FAILURE_MESSAGE"
    by (auto simp: generateBilingualReply_of_try split: prod.splits sum.splits)
next
  fix e
  assume "fst (generateBilingualReply ai parse m ctx tone pf name st) = Inl e"
  then show "\<exists>evs cause. snd (generateBilingualReply ai parse m ctx tone pf name st)
             = evs @ [ConsoleError ''Error generating bilingual reply:'' cause]"
    by (auto simp: generateBilingualReply_of_try split: prod.splits sum.splits)
next
  assume "build_reply_prompt m ctx tone pf name st = Inl c"
  then show "generateBilingualReply ai parse m ctx tone pf name st =
         (Inl (Error GENERIC_FAILURE_MESSAGE),
          [ConsoleError ''Error generating bilingual reply:'' c])"
    by (simp add: generateBilingualReply_of_try generateBilingualReply_try_unbuilt)
next
  assume h: "build_reply_prompt m ctx tone pf name st = Inr p
        \<and> (ai p = Rejected c
           \<or> (ai p = Resolved None \<and> c = cannot_read ''undefined'' ''trim'')
           \<or> (\<exists>text. ai p = Resolved (Some text) \<and> parse (trim text) = Inl c)
           \<or> (\<exists>text v. ai p = Resolved (Some text) \<and> parse (trim text) = Inr v
                 \<and> get_prop v ''sentences'' = Inl c)
           \<or> (\<exists>text v ss. ai p = Resolved (Some text) \<and> parse (trim text) = Inr v
                 \<and> get_prop v ''sentences'' = Inr ss
                 \<and> (ss = JUndefined \<or> ss = JArr [] \<or> \<not> truthy ss
                      \<or> get_prop ss ''length'' = Inr (JNum 0))
                 \<and> c = Error EMPTY_REPLY_MESSAGE))"
  have empty: "ss = JUndefined \<or> ss = JArr [] \<or> \<not> truthy ss \<or> get_prop ss ''length'' = Inr (JNum 0)
        \<Longrightarrow> \<not> truthy ss \<or> get_prop ss ''length'' = Inr (JNum 0)" for ss
    by auto
  from h have "read_reply parse (ai p) = Inl c"
    by (auto simp: read_reply_cause dest: empty)
  with h show "generateBilingualReply ai parse m ctx tone pf name st =
         (Inl (Error GENERIC_FAILURE_MESSAGE),
          [ModelCall p, ConsoleError ''Error generating bilingual reply:'' c])"
    by (simp add: generateBilingualReply_of_try generateBilingualReply_try_built)
qed

text \<open>
  A rejected request; the empty sentence array; and a \<^verbatim>\<open>null\<close> context, on which the
  template literal throws before any request is made.
\<close>

theorem generateBilingualReply_failure_generic_witness:
  \<open>generateBilingualReply (answers (Rejected NETWORK_ERROR) (Rejected NETWORK_ERROR)) (parse_table [])
     ''Hello'' DEFAULT_CONTEXT ''Friendly'' ''WhatsApp'' ''Teacher'' None =
   (Inl (Error GENERIC_FAILURE_MESSAGE),
    [ModelCall SAMPLE_PROMPT, ConsoleError ''Error generating bilingual reply:'' NETWORK_ERROR])
   \<and> generateBilingualReply (answers (Rejected NETWORK_ERROR) (Resolved (Some ''{"sentences":[]}'')))
     (parse_table [(''{"sentences":[]}'', JObj [(''sentences'', JArr [])])])
     ''Hello'' DEFAULT_CONTEXT ''Friendly'' ''WhatsApp'' ''Teacher'' None =
   (Inl (Error GENERIC_FAILURE_MESSAGE),
    [ModelCall SAMPLE_PROMPT,
     ConsoleError ''Error generating bilingual reply:'' (Error EMPTY_REPLY_MESSAGE)])
   \<and> generateBilingualReply (answers (Rejected NETWORK_ERROR) (Rejected NETWORK_ERROR)) (parse_table [])
     ''Hello'' JNull ''Friendly'' ''WhatsApp'' ''Teacher'' None =
   (Inl (Error GENERIC_FAILURE_MESSAGE),
    [ConsoleError ''Error generating bilingual reply:'' (cannot_read ''null'' ''messageType'')])\<close>
proof -
  let ?down = "answers (Rejected NETWORK_ERROR) (Rejected NETWORK_ERROR)"
  let ?empty = \<open>answers (Rejected NETWORK_ERROR) (Resolved (Some ''{"sentences":[]}''))\<close>
  let ?table = \<open>parse_table [(''{"sentences":[]}'', JObj [(''sentences'', JArr [])])]\<close>
  have a: "?down SAMPLE_PROMPT = Rejected NETWORK_ERROR"
    by (simp add: answers_def SAMPLE_PROMPT_def)
  have b: \<open>?empty SAMPLE_PROMPT = Resolved (Some ''{"sentences":[]}'')\<close>
    by (simp add: answers_def SAMPLE_PROMPT_def)
  have c: \<open>?table (trim ''{"sentences":[]}'') = Inr (JObj [(''sentences'', JArr [])])\<close>
    by (simp add: parse_table_def trim_def trimEnd_def ws1_def ws2_def ws3_def)
  have d: "get_prop (JObj [(''sentences'', JArr [])]) ''sentences'' = Inr (JArr [])"
    by simp
  have e: "build_reply_prompt ''Hello'' JNull ''Friendly'' ''WhatsApp'' ''Teacher'' None
             = Inl (cannot_read ''null'' ''messageType'')"
    by (simp add: build_reply_prompt_def)
  have first: "generateBilingualReply ?down (parse_table []) ''Hello'' DEFAULT_CONTEXT ''Friendly''
                 ''WhatsApp'' ''Teacher'' None =
               (Inl (Error GENERIC_FAILURE_MESSAGE),
                [ModelCall SAMPLE_PROMPT, ConsoleError ''Error generating bilingual reply:'' NETWORK_ERROR])"
    using generateBilingualReply_failure_generic
      [of ?down "parse_table []" "''Hello''" DEFAULT_CONTEXT "''Friendly''" "''WhatsApp''" "''Teacher''"
          None NETWORK_ERROR SAMPLE_PROMPT]
      build_sample a
    by blast
  have second: "generateBilingualReply ?empty ?table ''Hello'' DEFAULT_CONTEXT ''Friendly''
                 ''WhatsApp'' ''Teacher'' None =
               (Inl (Error GENERIC_FAILURE_MESSAGE),
                [ModelCall SAMPLE_PROMPT,
                 ConsoleError ''Error generating bilingual reply:'' (Error EMPTY_REPLY_MESSAGE)])"
    using generateBilingualReply_failure_generic
      [of ?empty ?table "''Hello''" DEFAULT_CONTEXT "''Friendly''" "''WhatsApp''" "''Teacher''"
          None "Error EMPTY_REPLY_MESSAGE" SAMPLE_PROMPT]
      build_sample b c d
    by blast
  have third: "generateBilingualReply ?down (parse_table []) ''Hello'' JNull ''Friendly''
                 ''WhatsApp'' ''Teacher'' None =
               (Inl (Error GENERIC_FAILURE_MESSAGE),
                [ConsoleError ''Error generating bilingual reply:'' (cannot_read ''null'' ''messageType'')])"
    using generateBilingualReply_failure_generic
      [of ?down "parse_table []" "''Hello''" JNull "''Friendly''" "''WhatsApp''" "''Teacher''"
          None "cannot_read ''null'' ''messageType''"]
      e
    by blast
  from first second third show ?thesis
    by simp
qed

section \<open>The handler of the generate button\<close>

lemma model_calls_append: "model_calls (xs @ ys) = model_calls xs @ model_calls ys"
  by (induction xs rule: model_calls.induct) simp_all

lemma progress_values_append: "progress_values (xs @ ys) = progress_values xs @ progress_values ys"
  by (induction xs rule: progress_values.induct) simp_all

lemma analyzeContext_events:
  "model_calls (snd (analyzeContext ai parse m)) = [AnalysisPrompt m]"
  "progress_values (snd (analyzeContext ai parse m)) = []"
  by (simp_all add: analyzeContext_def split: sum.splits)

lemma generateBilingualReply_events:
  "model_calls (snd (generateBilingualReply ai parse m ctx tone pf name st)) =
     (case build_reply_prompt m ctx tone pf name st of Inl e \<Rightarrow> [] | Inr p \<Rightarrow> [p])"
  "progress_values (snd (generateBilingualReply ai parse m ctx tone pf name st)) = []"
  by (simp_all add: generateBilingualReply_def generateBilingualReply_try_def
      model_calls_append progress_values_append split: sum.splits prod.splits)

lemma analyzeContext_resolves: "\<exists>ctx. fst (analyzeContext ai parse m) = Inr ctx"
  by (simp add: analyzeContext_def split: sum.splits)

lemmas setters =
  setIsLoading_def setError_def setReplySentences_def setToneDescription_def
  setDetectedContext_def setMessageType_def setProgress_def emit_def

lemmas progress_names =
  RESETS_def READING_def DETECTING_def DRAFTING_def COMPLETED_def FAILED_def FAILED_RUN_END_def

lemma run_blank:
  assumes "trim (finalMessage message s) = []"
  shows "handleGenerateReply ai parse message s =
           (s\<lparr>error := Some EMPTY_MESSAGE_ERROR\<rparr>, [SetError (Some EMPTY_MESSAGE_ERROR)])"
  using assms by (simp add: handleGenerateReply_def setters)

lemma run_context_unreadable:
  assumes "trim (finalMessage message s) \<noteq> []"
    and "fst (analyzeContext ai parse (finalMessage message s)) = Inr ctx"
    and "get_prop ctx ''messageType'' = Inl e"
  shows "handleGenerateReply ai parse message s =
           (s\<lparr>isLoading := False, error := Some (shown_error e), replySentences := JArr [],
              toneDescription := JStr [], progress := FAILED (error_message e), detectedContext := ctx\<rparr>,
            RESETS @ [SetProgress DETECTING] @ snd (analyzeContext ai parse (finalMessage message s))
            @ [SetDetectedContext ctx] @ FAILED_RUN_END e)"
  using assms
  by (simp add: handleGenerateReply_def handleGenerateReply_try_def setters Let_def progress_names)

lemma run_generation_failed:
  assumes "trim (finalMessage message s) \<noteq> []"
    and "fst (analyzeContext ai parse (finalMessage message s)) = Inr ctx"
    and "get_prop ctx ''messageType'' = Inr mt"
    and "fst (generateBilingualReply ai parse (finalMessage message s) ctx (replyTone s)
               (platform (settings s)) (teacherName (settings s)) (selectedStudent_of s)) = Inl e"
  shows "handleGenerateReply ai parse message s =
           (s\<lparr>isLoading := False, error := Some (shown_error e), replySentences := JArr [],
              toneDescription := JStr [], progress := FAILED (error_message e), detectedContext := ctx,
              messageType := mt\<rparr>,
            RESETS @ [SetProgress DETECTING] @ snd (analyzeContext ai parse (finalMessage message s))
            @ [SetDetectedContext ctx, SetMessageType mt, SetProgress DRAFTING]
            @ snd (generateBilingualReply ai parse (finalMessage message s) ctx (replyTone s)
                    (platform (settings s)) (teacherName (settings s)) (selectedStudent_of s))
            @ FAILED_RUN_END e)"
  using assms
  by (simp add: handleGenerateReply_def handleGenerateReply_try_def setters Let_def progress_names)

lemma run_success:
  assumes "trim (finalMessage message s) \<noteq> []"
    and "fst (analyzeContext ai parse (finalMessage message s)) = Inr ctx"
    and "get_prop ctx ''messageType'' = Inr mt"
    and "fst (generateBilingualReply ai parse (finalMessage message s) ctx (replyTone s)
               (platform (settings s)) (teacherName (settings s)) (selectedStudent_of s)) = Inr result"
  shows "handleGenerateReply ai parse message s =
           (s\<lparr>isLoading := False, error := None, replySentences := reply_sentences result,
              toneDescription := reply_toneDescription result, progress := COMPLETED, detectedContext := ctx,
              messageType := mt\<rparr>,
            RESETS @ [SetProgress DETECTING] @ snd (analyzeContext ai parse (finalMessage message s))
            @ [SetDetectedContext ctx, SetMessageType mt, SetProgress DRAFTING]
            @ snd (generateBilingualReply ai parse (finalMessage message s) ctx (replyTone s)
                    (platform (settings s)) (teacherName (settings s)) (selectedStudent_of s))
            @ [SetProgress COMPLETED, SetReplySentences (reply_sentences result),
               SetToneDescription (reply_toneDescription result), SetIsLoading False])"
  using assms
  by (simp add: handleGenerateReply_def handleGenerateReply_try_def setters Let_def progress_names)

lemma model_calls_fixed [simp]:
  "model_calls RESETS = []" "model_calls (FAILED_RUN_END e) = []"
  by (simp_all add: RESETS_def FAILED_RUN_END_def)

lemma progress_values_fixed [simp]:
  "progress_values RESETS = [READING]" "progress_values (FAILED_RUN_END e) = [FAILED (error_message e)]"
  by (simp_all add: RESETS_def FAILED_RUN_END_def)

lemma progress_values_distinct:
  "distinct [NO_PROGRESS, READING, DETECTING, DRAFTING, COMPLETED]
   \<and> FAILED m \<notin> set [NO_PROGRESS, READING, DETECTING, DRAFTING, COMPLETED]"
  by (simp add: progress_names NO_PROGRESS_def)

lemma trim_samples:
  "trim ''Hello'' = ''Hello''" "trim CONTEXT_TEXT = CONTEXT_TEXT" "trim REPLY_TEXT = REPLY_TEXT"
  "trim ''null'' = ''null''" "trim UNPRINTABLE_CONTEXT_TEXT = UNPRINTABLE_CONTEXT_TEXT"
  by (simp_all add: trim_def trimEnd_def ws1_def ws2_def ws3_def CONTEXT_TEXT_def REPLY_TEXT_def
      UNPRINTABLE_CONTEXT_TEXT_def)

lemma sample_message:
  "finalMessage None SAMPLE_STATE = ''Hello''"
  "finalMessage None SAMPLE_STATE_WITH_REPLY = ''Hello''"
  by (simp_all add: finalMessage_def SAMPLE_STATE_def SAMPLE_STATE_WITH_REPLY_def initial_state_def)

lemma sample_parse:
  "SAMPLE_PARSE CONTEXT_TEXT = Inr DEFAULT_CONTEXT"
  "SAMPLE_PARSE REPLY_TEXT = Inr (JObj [(''sentences'', SAMPLE_SENTENCES), (''toneDescription'', JStr ''Warm'')])"
  "SAMPLE_PARSE ''null'' = Inr JNull"
  "SAMPLE_PARSE UNPRINTABLE_CONTEXT_TEXT = Inr UNPRINTABLE_CONTEXT"
  by (simp_all add: SAMPLE_PARSE_def parse_table_def CONTEXT_TEXT_def REPLY_TEXT_def
      UNPRINTABLE_CONTEXT_TEXT_def)

lemma sample_analysis:
  "fst (analyzeContext SAMPLE_SERVICE SAMPLE_PARSE ''Hello'') = Inr DEFAULT_CONTEXT"
  "fst (analyzeContext FAILING_REPLY_SERVICE SAMPLE_PARSE ''Hello'') = Inr DEFAULT_CONTEXT"
  "fst (analyzeContext NULL_CONTEXT_SERVICE SAMPLE_PARSE ''Hello'') = Inr JNull"
  "fst (analyzeContext UNPRINTABLE_CONTEXT_SERVICE SAMPLE_PARSE ''Hello'') = Inr UNPRINTABLE_CONTEXT"
  by (simp_all add: analyzeContext_def analyzeContext_try_def SAMPLE_SERVICE_def FAILING_REPLY_SERVICE_def
      NULL_CONTEXT_SERVICE_def UNPRINTABLE_CONTEXT_SERVICE_def answers_def trim_samples sample_parse)

lemma sample_readable:
  "get_prop DEFAULT_CONTEXT ''messageType'' = Inr (JStr (MessageType_value GENERAL))"
  "get_prop JNull ''messageType'' = Inl (cannot_read ''null'' ''messageType'')"
  "get_prop UNPRINTABLE_CONTEXT ''messageType'' = Inr (JObj [(''toString'', JNum 1)])"
  by (simp_all add: DEFAULT_CONTEXT_def UNPRINTABLE_CONTEXT_def)

lemma sample_build:
  "build_reply_prompt ''Hello'' DEFAULT_CONTEXT (replyTone SAMPLE_STATE) (platform (settings SAMPLE_STATE))
     (teacherName (settings SAMPLE_STATE)) (selectedStudent_of SAMPLE_STATE) = Inr SAMPLE_PROMPT"
  "build_reply_prompt ''Hello'' UNPRINTABLE_CONTEXT (replyTone SAMPLE_STATE) (platform (settings SAMPLE_STATE))
     (teacherName (settings SAMPLE_STATE)) (selectedStudent_of SAMPLE_STATE)
     = Inl (TypeError ''Cannot convert object to primitive value'')"
  by (simp_all add: build_reply_prompt_def substituted_def DEFAULT_CONTEXT_def UNPRINTABLE_CONTEXT_def
      SAMPLE_PROMPT_def SAMPLE_STATE_def initial_state_def INITIAL_SETTINGS_def selectedStudent_of_def)

lemma sample_generation_failing:
  "fst (generateBilingualReply FAILING_REPLY_SERVICE SAMPLE_PARSE ''Hello'' DEFAULT_CONTEXT
         (replyTone SAMPLE_STATE) (platform (settings SAMPLE_STATE)) (teacherName (settings SAMPLE_STATE))
         (selectedStudent_of SAMPLE_STATE)) = Inl (Error GENERIC_FAILURE_MESSAGE)"
  by (simp add: generateBilingualReply_def generateBilingualReply_try_def sample_build read_reply_def
      FAILING_REPLY_SERVICE_def answers_def SAMPLE_PROMPT_def)

lemma sample_generation_unprintable:
  "generateBilingualReply UNPRINTABLE_CONTEXT_SERVICE SAMPLE_PARSE ''Hello'' UNPRINTABLE_CONTEXT
         (replyTone SAMPLE_STATE) (platform (settings SAMPLE_STATE)) (teacherName (settings SAMPLE_STATE))
         (selectedStudent_of SAMPLE_STATE)
     = (Inl (Error GENERIC_FAILURE_MESSAGE),
        [ConsoleError ''Error generating bilingual reply:''
           (TypeError ''Cannot convert object to primitive value'')])"
  by (simp add: generateBilingualReply_def generateBilingualReply_try_def sample_build)

lemma sample_generation:
  "fst (generateBilingualReply SAMPLE_SERVICE SAMPLE_PARSE ''Hello'' DEFAULT_CONTEXT
         (replyTone SAMPLE_STATE) (platform (settings SAMPLE_STATE)) (teacherName (settings SAMPLE_STATE))
         (selectedStudent_of SAMPLE_STATE))
     = Inr \<lparr> reply_sentences = SAMPLE_SENTENCES, reply_toneDescription = JStr ''Warm'' \<rparr>"
  by (simp add: generateBilingualReply_def generateBilingualReply_try_def sample_build read_reply_def
      SAMPLE_SERVICE_def answers_def SAMPLE_PROMPT_def trim_samples sample_parse SAMPLE_SENTENCES_def)

lemma with_reply_fields:
  "replyTone SAMPLE_STATE_WITH_REPLY = replyTone SAMPLE_STATE"
  "settings SAMPLE_STATE_WITH_REPLY = settings SAMPLE_STATE"
  "selectedStudent_of SAMPLE_STATE_WITH_REPLY = selectedStudent_of SAMPLE_STATE"
  by (simp_all add: SAMPLE_STATE_WITH_REPLY_def selectedStudent_of_def)

lemma sample_nonblank:
  "trim (finalMessage None SAMPLE_STATE) \<noteq> []"
  "trim (finalMessage None SAMPLE_STATE_WITH_REPLY) \<noteq> []"
  by (simp_all add: sample_message trim_samples)

text \<open>
  Claim C5. In a run of \<^verbatim>\<open>handleGenerateReply\<close> on a message that is not blank,
  \<^verbatim>\<open>analyzeContext\<close> resolves with a context. Then either reading
  \<^verbatim>\<open>context.messageType\<close> throws (a \<^verbatim>\<open>null\<close> context), the second stage is never
  called and the only request of the run is the analysis request; or the effects of
  \<^verbatim>\<open>generateBilingualReply\<close>, called on that very context, come after all the effects
  of \<^verbatim>\<open>analyzeContext\<close>, and the requests of the run are the analysis request followed
  by the request of that call, if it makes one (it makes none when its template literal
  throws).
\<close>

theorem handleGenerateReply_stages_sequential:
  assumes "trim (finalMessage message s) \<noteq> []"
  shows "\<exists>ctx.
           fst (analyzeContext ai parse (finalMessage message s)) = Inr ctx
         \<and> ((\<exists>e. get_prop ctx ''messageType'' = Inl e)
              \<and> model_calls (snd (handleGenerateReply ai parse message s))
                  = [AnalysisPrompt (finalMessage message s)]
            \<or> (\<exists>mt before between after.
                 get_prop ctx ''messageType'' = Inr mt
               \<and> snd (handleGenerateReply ai parse message s)
                   = before @ snd (analyzeContext ai parse (finalMessage message s)) @ between
                     @ snd (generateBilingualReply ai parse (finalMessage message s) ctx (replyTone s)
                             (platform (settings s)) (teacherName (settings s)) (selectedStudent_of s))
                     @ after
               \<and> model_calls before = [] \<and> model_calls between = [] \<and> model_calls after = []
               \<and> model_calls (snd (handleGenerateReply ai parse message s))
                   = AnalysisPrompt (finalMessage message s)
                     # (case build_reply_prompt (finalMessage message s) ctx (replyTone s)
                               (platform (settings s)) (teacherName (settings s)) (selectedStudent_of s) of
                          Inl e \<Rightarrow> []
                        | Inr p \<Rightarrow> [p])))"
proof -
  let ?fm = "finalMessage message s"
  let ?G = "\<lambda>ctx. generateBilingualReply ai parse ?fm ctx (replyTone s)
                  (platform (settings s)) (teacherName (settings s)) (selectedStudent_of s)"
  obtain ctx where ctx: "fst (analyzeContext ai parse ?fm) = Inr ctx"
    using analyzeContext_resolves by blast
  show ?thesis
  proof (cases "get_prop ctx ''messageType''")
    case (Inl e)
    have "model_calls (snd (handleGenerateReply ai parse message s)) = [AnalysisPrompt ?fm]"
      by (simp add: run_context_unreadable [OF assms ctx Inl] model_calls_append analyzeContext_events)
    with ctx Inl show ?thesis by blast
  next
    case (Inr mt)
    have "\<exists>after. snd (handleGenerateReply ai parse message s)
            = (RESETS @ [SetProgress DETECTING]) @ snd (analyzeContext ai parse ?fm)
              @ [SetDetectedContext ctx, SetMessageType mt, SetProgress DRAFTING] @ snd (?G ctx) @ after
          \<and> model_calls after = []"
    proof (cases "fst (?G ctx)")
      case (Inl e)
      show ?thesis
        by (rule exI [of _ "FAILED_RUN_END e"])
           (simp add: run_generation_failed [OF assms ctx Inr Inl])
    next
      case (Inr result)
      show ?thesis
        by (rule exI [of _ "[SetProgress COMPLETED, SetReplySentences (reply_sentences result),
               SetToneDescription (reply_toneDescription result), SetIsLoading False]"])
           (simp add: run_success [OF assms ctx \<open>get_prop ctx ''messageType'' = Inr mt\<close> Inr])
    qed
    then obtain after where run:
      "snd (handleGenerateReply ai parse message s)
            = (RESETS @ [SetProgress DETECTING]) @ snd (analyzeContext ai parse ?fm)
              @ [SetDetectedContext ctx, SetMessageType mt, SetProgress DRAFTING] @ snd (?G ctx) @ after"
      and after: "model_calls after = []"
      by blast
    have calls: "model_calls (snd (handleGenerateReply ai parse message s))
                   = AnalysisPrompt ?fm
                     # (case build_reply_prompt ?fm ctx (replyTone s)
                               (platform (settings s)) (teacherName (settings s)) (selectedStudent_of s) of
                          Inl e \<Rightarrow> []
                        | Inr p \<Rightarrow> [p])"
      by (simp add: run model_calls_append analyzeContext_events generateBilingualReply_events after)
    have "model_calls (RESETS @ [SetProgress DETECTING]) = []"
      and "model_calls [SetDetectedContext ctx, SetMessageType mt, SetProgress DRAFTING] = []"
      by (simp_all add: model_calls_append)
    with run after calls ctx Inr show ?thesis
      by blast
  qed
qed

text \<open>
  Three runs on \<^verbatim>\<open>Hello\<close>: the model answers both requests; the analysis is \<^verbatim>\<open>null\<close>,
  and the second stage is not called; the analysis has a \<^verbatim>\<open>messageType\<close> that cannot be
  converted to a string, and the second stage is called and makes no request.
\<close>

theorem handleGenerateReply_stages_sequential_witness:
  "trim (finalMessage None SAMPLE_STATE) \<noteq> []
   \<and> model_calls (snd (handleGenerateReply SAMPLE_SERVICE SAMPLE_PARSE None SAMPLE_STATE))
       = [AnalysisPrompt ''Hello'', SAMPLE_PROMPT]
   \<and> model_calls (snd (handleGenerateReply NULL_CONTEXT_SERVICE SAMPLE_PARSE None SAMPLE_STATE))
       = [AnalysisPrompt ''Hello'']
   \<and> model_calls (snd (handleGenerateReply UNPRINTABLE_CONTEXT_SERVICE SAMPLE_PARSE None SAMPLE_STATE))
       = [AnalysisPrompt ''Hello'']"
proof -
  have first: "model_calls (snd (handleGenerateReply SAMPLE_SERVICE SAMPLE_PARSE None SAMPLE_STATE))
       = [AnalysisPrompt ''Hello'', SAMPLE_PROMPT]"
    using handleGenerateReply_stages_sequential [OF sample_nonblank(1), of SAMPLE_SERVICE SAMPLE_PARSE]
      sample_readable(1) sample_build(1)
    by (auto simp: sample_message sample_analysis)
  have second: "model_calls (snd (handleGenerateReply NULL_CONTEXT_SERVICE SAMPLE_PARSE None SAMPLE_STATE))
       = [AnalysisPrompt ''Hello'']"
    using handleGenerateReply_stages_sequential [OF sample_nonblank(1), of NULL_CONTEXT_SERVICE SAMPLE_PARSE]
      sample_readable(2)
    by (auto simp: sample_message sample_analysis)
  have third: "model_calls (snd (handleGenerateReply UNPRINTABLE_CONTEXT_SERVICE SAMPLE_PARSE None SAMPLE_STATE))
       = [AnalysisPrompt ''Hello'']"
    using handleGenerateReply_stages_sequential
      [OF sample_nonblank(1), of UNPRINTABLE_CONTEXT_SERVICE SAMPLE_PARSE]
      sample_readable(3) sample_build(2)
    by (auto simp: sample_message sample_analysis)
  from first second third sample_nonblank(1) show ?thesis
    by simp
qed

text \<open>
  The run whose analysis has a \<^verbatim>\<open>messageType\<close> that cannot be converted to a string:
  the second stage is called, throws in its template literal and makes no request.
\<close>

lemma unprintable_context_example:
  "model_calls (snd (handleGenerateReply UNPRINTABLE_CONTEXT_SERVICE SAMPLE_PARSE None SAMPLE_STATE))
     = [AnalysisPrompt ''Hello'']
   \<and> progress_values (snd (handleGenerateReply UNPRINTABLE_CONTEXT_SERVICE SAMPLE_PARSE None SAMPLE_STATE))
     = [READING, DETECTING, DRAFTING, FAILED GENERIC_FAILURE_MESSAGE]"
proof -
  have a: "fst (analyzeContext UNPRINTABLE_CONTEXT_SERVICE SAMPLE_PARSE (finalMessage None SAMPLE_STATE))
             = Inr UNPRINTABLE_CONTEXT"
    by (simp add: sample_message sample_analysis)
  have c: "fst (generateBilingualReply UNPRINTABLE_CONTEXT_SERVICE SAMPLE_PARSE (finalMessage None SAMPLE_STATE)
         UNPRINTABLE_CONTEXT
         (replyTone SAMPLE_STATE) (platform (settings SAMPLE_STATE)) (teacherName (settings SAMPLE_STATE))
         (selectedStudent_of SAMPLE_STATE)) = Inl (Error GENERIC_FAILURE_MESSAGE)"
    by (simp add: sample_message sample_generation_unprintable)
  show ?thesis
    by (simp add: run_generation_failed [OF sample_nonblank(1) a sample_readable(3) c]
        model_calls_append progress_values_append analyzeContext_events generateBilingualReply_events
        sample_message sample_build)
qed

text \<open>
  Claim C6, as the code has it. In one run of \<^verbatim>\<open>handleGenerateReply\<close> on a message that
  is not blank the progress indicator, from the value it had before the run, goes to
  reading, then detecting; then to its error value exactly when reading
  \<^verbatim>\<open>context.messageType\<close> throws, and otherwise to drafting; then to its error value
  exactly when \<^verbatim>\<open>generateBilingualReply\<close> raises, and otherwise to done. So the error
  value follows detecting or drafting only. On a blank message the indicator is not
  touched. The value before the run is the empty indicator (idle) in a component that
  has just been mounted, and otherwise what the last run left, done or error: nothing
  sets the indicator back to idle. The state ends with the last value of the sequence,
  and the values are pairwise different.
\<close>

theorem handleGenerateReply_progress_order:
  "(\<exists>ctx. fst (analyzeContext ai parse (finalMessage message s)) = Inr ctx
      \<and> progress s # progress_values (snd (handleGenerateReply ai parse message s))
          = (if trim (finalMessage message s) = [] then [progress s]
             else case get_prop ctx ''messageType'' of
                    Inl e \<Rightarrow> [progress s, READING, DETECTING, FAILED (error_message e)]
                  | Inr mt \<Rightarrow>
                      (case fst (generateBilingualReply ai parse (finalMessage message s) ctx (replyTone s)
                                  (platform (settings s)) (teacherName (settings s)) (selectedStudent_of s)) of
                         Inl e \<Rightarrow> [progress s, READING, DETECTING, DRAFTING, FAILED (error_message e)]
                       | Inr result \<Rightarrow> [progress s, READING, DETECTING, DRAFTING, COMPLETED])))
   \<and> progress (fst (handleGenerateReply ai parse message s))
       = last (progress s # progress_values (snd (handleGenerateReply ai parse message s)))
   \<and> progress (initial_state stored_settings stored_students) = NO_PROGRESS
   \<and> distinct [NO_PROGRESS, READING, DETECTING, DRAFTING, COMPLETED]
   \<and> (\<forall>m. FAILED m \<notin> set [NO_PROGRESS, READING, DETECTING, DRAFTING, COMPLETED])"
proof -
  let ?fm = "finalMessage message s"
  let ?run = "handleGenerateReply ai parse message s"
  let ?G = "\<lambda>ctx. generateBilingualReply ai parse ?fm ctx (replyTone s)
                  (platform (settings s)) (teacherName (settings s)) (selectedStudent_of s)"
  have idle: "progress (initial_state stored_settings stored_students) = NO_PROGRESS"
    by (simp add: initial_state_def)
  obtain ctx where ctx: "fst (analyzeContext ai parse ?fm) = Inr ctx"
    using analyzeContext_resolves by blast
  have order:
    "progress_values (snd ?run)
          = (if trim ?fm = [] then []
             else case get_prop ctx ''messageType'' of
                    Inl e \<Rightarrow> [READING, DETECTING, FAILED (error_message e)]
                  | Inr mt \<Rightarrow>
                      (case fst (?G ctx) of
                         Inl e \<Rightarrow> [READING, DETECTING, DRAFTING, FAILED (error_message e)]
                       | Inr result \<Rightarrow> [READING, DETECTING, DRAFTING, COMPLETED]))
     \<and> progress (fst ?run) = last (progress s # progress_values (snd ?run))"
  proof (cases "trim ?fm = []")
    case True
    then show ?thesis
      by (simp add: run_blank)
  next
    case False
    show ?thesis
    proof (cases "get_prop ctx ''messageType''")
      case (Inl e)
      then show ?thesis
        using False
        by (simp add: run_context_unreadable [OF False ctx Inl] progress_values_append
            analyzeContext_events)
    next
      case (Inr mt)
      show ?thesis
      proof (cases "fst (?G ctx)")
        case (Inl e)
        then show ?thesis
          using False \<open>get_prop ctx ''messageType'' = Inr mt\<close>
          by (simp add: run_generation_failed [OF False ctx Inr Inl] progress_values_append
              analyzeContext_events generateBilingualReply_events)
      next
        case (Inr result)
        then show ?thesis
          using False \<open>get_prop ctx ''messageType'' = Inr mt\<close>
          by (simp add: run_success [OF False ctx \<open>get_prop ctx ''messageType'' = Inr mt\<close> Inr]
              progress_values_append analyzeContext_events generateBilingualReply_events)
      qed
    qed
  qed
  then have "progress s # progress_values (snd ?run)
          = (if trim ?fm = [] then [progress s]
             else case get_prop ctx ''messageType'' of
                    Inl e \<Rightarrow> [progress s, READING, DETECTING, FAILED (error_message e)]
                  | Inr mt \<Rightarrow>
                      (case fst (?G ctx) of
                         Inl e \<Rightarrow> [progress s, READING, DETECTING, DRAFTING, FAILED (error_message e)]
                       | Inr result \<Rightarrow> [progress s, READING, DETECTING, DRAFTING, COMPLETED]))"
    by (simp split: sum.splits)
  with ctx order idle progress_values_distinct show ?thesis
    by blast
qed

text \<open>
  From the state of a component that has just been mounted, with \<^verbatim>\<open>Hello\<close> typed: the
  four sequences, each from idle.
\<close>

theorem handleGenerateReply_progress_order_witness:
  "progress SAMPLE_STATE # progress_values (snd (handleGenerateReply SAMPLE_SERVICE SAMPLE_PARSE None SAMPLE_STATE))
     = [NO_PROGRESS, READING, DETECTING, DRAFTING, COMPLETED]
   \<and> progress SAMPLE_STATE
       # progress_values (snd (handleGenerateReply NULL_CONTEXT_SERVICE SAMPLE_PARSE None SAMPLE_STATE))
     = [NO_PROGRESS, READING, DETECTING, FAILED (error_message (cannot_read ''null'' ''messageType''))]
   \<and> progress SAMPLE_STATE
       # progress_values (snd (handleGenerateReply FAILING_REPLY_SERVICE SAMPLE_PARSE None SAMPLE_STATE))
     = [NO_PROGRESS, READING, DETECTING, DRAFTING, FAILED GENERIC_FAILURE_MESSAGE]
   \<and> progress SAMPLE_STATE
       # progress_values (snd (handleGenerateReply SAMPLE_SERVICE SAMPLE_PARSE (Some ''  '')
                                (SAMPLE_STATE\<lparr>studentMessage := []\<rparr>)))
     = [NO_PROGRESS]"
proof -
  have idle: "progress SAMPLE_STATE = NO_PROGRESS"
    "progress (SAMPLE_STATE\<lparr>studentMessage := []\<rparr>) = NO_PROGRESS"
    by (simp_all add: SAMPLE_STATE_def initial_state_def)
  have blank: "trim (finalMessage (Some ''  '') (SAMPLE_STATE\<lparr>studentMessage := []\<rparr>)) = []"
    by (simp add: finalMessage_def trim_def trimEnd_def ws1_def)
  have first: "progress SAMPLE_STATE
       # progress_values (snd (handleGenerateReply SAMPLE_SERVICE SAMPLE_PARSE None SAMPLE_STATE))
     = [NO_PROGRESS, READING, DETECTING, DRAFTING, COMPLETED]"
    using handleGenerateReply_progress_order [of SAMPLE_SERVICE SAMPLE_PARSE None SAMPLE_STATE]
      sample_nonblank(1)
    by (auto simp: sample_message sample_analysis sample_readable sample_generation idle)
  have second: "progress SAMPLE_STATE
       # progress_values (snd (handleGenerateReply NULL_CONTEXT_SERVICE SAMPLE_PARSE None SAMPLE_STATE))
     = [NO_PROGRESS, READING, DETECTING, FAILED (error_message (cannot_read ''null'' ''messageType''))]"
    using handleGenerateReply_progress_order [of NULL_CONTEXT_SERVICE SAMPLE_PARSE None SAMPLE_STATE]
      sample_nonblank(1)
    by (auto simp: sample_message sample_analysis sample_readable idle)
  have third: "progress SAMPLE_STATE
       # progress_values (snd (handleGenerateReply FAILING_REPLY_SERVICE SAMPLE_PARSE None SAMPLE_STATE))
     = [NO_PROGRESS, READING, DETECTING, DRAFTING, FAILED GENERIC_FAILURE_MESSAGE]"
    using handleGenerateReply_progress_order [of FAILING_REPLY_SERVICE SAMPLE_PARSE None SAMPLE_STATE]
      sample_nonblank(1)
    by (auto simp: sample_message sample_analysis sample_readable sample_generation_failing idle)
  have fourth: "progress SAMPLE_STATE
       # progress_values (snd (handleGenerateReply SAMPLE_SERVICE SAMPLE_PARSE (Some ''  '')
                                (SAMPLE_STATE\<lparr>studentMessage := []\<rparr>)))
     = [NO_PROGRESS]"
    using handleGenerateReply_progress_order
      [of SAMPLE_SERVICE SAMPLE_PARSE "Some ''  ''" "SAMPLE_STATE\<lparr>studentMessage := []\<rparr>"] blank
    by (auto simp: idle)
  from first second third fourth show ?thesis
    by simp
qed

text \<open>
  The claim as stated fails on the start of the order: a second run, started from the
  state the first one left, goes from done to reading, not from idle.
\<close>

lemma first_run_state:
  "fst (handleGenerateReply SAMPLE_SERVICE SAMPLE_PARSE None SAMPLE_STATE)
     = SAMPLE_STATE\<lparr>isLoading := False, error := None, replySentences := SAMPLE_SENTENCES,
         toneDescription := JStr ''Warm'', progress := COMPLETED, detectedContext := DEFAULT_CONTEXT,
         messageType := JStr (MessageType_value GENERAL)\<rparr>"
proof -
  have a: "fst (analyzeContext SAMPLE_SERVICE SAMPLE_PARSE (finalMessage None SAMPLE_STATE))
             = Inr DEFAULT_CONTEXT"
    by (simp add: sample_message sample_analysis)
  have c: "fst (generateBilingualReply SAMPLE_SERVICE SAMPLE_PARSE (finalMessage None SAMPLE_STATE)
         DEFAULT_CONTEXT
         (replyTone SAMPLE_STATE) (platform (settings SAMPLE_STATE)) (teacherName (settings SAMPLE_STATE))
         (selectedStudent_of SAMPLE_STATE))
      = Inr \<lparr> reply_sentences = SAMPLE_SENTENCES, reply_toneDescription = JStr ''Warm'' \<rparr>"
    by (simp add: sample_message sample_generation)
  show ?thesis
    by (simp add: run_success [OF sample_nonblank(1) a sample_readable(1) c])
qed

theorem progress_from_done_counterexample:
  "progress AFTER_FIRST_RUN = COMPLETED
   \<and> COMPLETED \<noteq> NO_PROGRESS
   \<and> progress AFTER_FIRST_RUN
       # progress_values (snd (handleGenerateReply SAMPLE_SERVICE SAMPLE_PARSE None AFTER_FIRST_RUN))
     = [COMPLETED, READING, DETECTING, DRAFTING, COMPLETED]"
proof -
  let ?s = "AFTER_FIRST_RUN"
  have sm: "studentMessage SAMPLE_STATE = ''Hello''"
    by (simp add: SAMPLE_STATE_def)
  have fields: "studentMessage ?s = ''Hello''" "replyTone ?s = replyTone SAMPLE_STATE"
    "settings ?s = settings SAMPLE_STATE" "selectedStudent_of ?s = selectedStudent_of SAMPLE_STATE"
    "progress ?s = COMPLETED"
    by (simp_all add: AFTER_FIRST_RUN_def first_run_state selectedStudent_of_def sm)
  have fm: "finalMessage None ?s = ''Hello''"
    by (simp add: finalMessage_def fields)
  have nonblank: "trim (finalMessage None ?s) \<noteq> []"
    by (simp add: fm trim_samples)
  have a: "fst (analyzeContext SAMPLE_SERVICE SAMPLE_PARSE (finalMessage None ?s)) = Inr DEFAULT_CONTEXT"
    by (simp add: fm sample_analysis)
  have c: "fst (generateBilingualReply SAMPLE_SERVICE SAMPLE_PARSE (finalMessage None ?s) DEFAULT_CONTEXT
         (replyTone ?s) (platform (settings ?s)) (teacherName (settings ?s)) (selectedStudent_of ?s))
      = Inr \<lparr> reply_sentences = SAMPLE_SENTENCES, reply_toneDescription = JStr ''Warm'' \<rparr>"
    by (simp add: fm fields sample_generation)
  have "progress_values (snd (handleGenerateReply SAMPLE_SERVICE SAMPLE_PARSE None ?s))
          = [READING, DETECTING, DRAFTING, COMPLETED]"
    by (simp add: run_success [OF nonblank a sample_readable(1) c] progress_values_append
        analyzeContext_events generateBilingualReply_events)
  moreover have "COMPLETED \<noteq> NO_PROGRESS"
    using progress_values_distinct [of "[]"] by auto
  ultimately show ?thesis
    by (simp add: fields)
qed

text \<open>
  Claim C10, as the code has it. A run of \<^verbatim>\<open>handleGenerateReply\<close> that is stopped by the
  guard on a blank message sets the error text and does nothing else: it contacts no
  model and leaves the reply sentences and the tone description of an earlier run as
  they were. Every other run starts with the resets (loading flag, error, reply
  sentences, tone description, progress), none of which is a request to the model, and
  sets the reply sentences again only on full success: it ends with the sentences and
  the tone description of the second stage, no error and the indicator on done exactly
  when both stages returned; otherwise it ends with the error text, the indicator on its
  error value, and the reply sentences and the tone description empty, as the resets
  left them.
\<close>

theorem handleGenerateReply_error_excludes_reply:
  "if trim (finalMessage message s) = []
   then handleGenerateReply ai parse message s
          = (s\<lparr>error := Some EMPTY_MESSAGE_ERROR\<rparr>, [SetError (Some EMPTY_MESSAGE_ERROR)])
   else (\<exists>rest. snd (handleGenerateReply ai parse message s) = RESETS @ rest)
      \<and> model_calls RESETS = []
      \<and> (\<exists>ctx. fst (analyzeContext ai parse (finalMessage message s)) = Inr ctx
           \<and> ((\<exists>mt result.
                  get_prop ctx ''messageType'' = Inr mt
                \<and> fst (generateBilingualReply ai parse (finalMessage message s) ctx (replyTone s)
                         (platform (settings s)) (teacherName (settings s)) (selectedStudent_of s))
                    = Inr result
                \<and> replySentences (fst (handleGenerateReply ai parse message s)) = reply_sentences result
                \<and> toneDescription (fst (handleGenerateReply ai parse message s))
                    = reply_toneDescription result
                \<and> error (fst (handleGenerateReply ai parse message s)) = None
                \<and> progress (fst (handleGenerateReply ai parse message s)) = COMPLETED)
              \<or> (\<exists>e. (get_prop ctx ''messageType'' = Inl e
                       \<or> (\<exists>mt. get_prop ctx ''messageType'' = Inr mt
                            \<and> fst (generateBilingualReply ai parse (finalMessage message s) ctx (replyTone s)
                                     (platform (settings s)) (teacherName (settings s))
                                     (selectedStudent_of s)) = Inl e))
                    \<and> error (fst (handleGenerateReply ai parse message s)) = Some (shown_error e)
                    \<and> progress (fst (handleGenerateReply ai parse message s)) = FAILED (error_message e)
                    \<and> replySentences (fst (handleGenerateReply ai parse message s)) = JArr []
                    \<and> toneDescription (fst (handleGenerateReply ai parse message s)) = JStr [])))"
proof (cases "trim (finalMessage message s) = []")
  case True
  then show ?thesis
    by (simp add: run_blank)
next
  case False
  let ?fm = "finalMessage message s"
  let ?run = "handleGenerateReply ai parse message s"
  let ?G = "\<lambda>ctx. generateBilingualReply ai parse ?fm ctx (replyTone s)
                  (platform (settings s)) (teacherName (settings s)) (selectedStudent_of s)"
  obtain ctx where ctx: "fst (analyzeContext ai parse ?fm) = Inr ctx"
    using analyzeContext_resolves by blast
  have resets: "\<exists>rest. snd ?run = RESETS @ rest"
  proof (cases "get_prop ctx ''messageType''")
    case (Inl e)
    show ?thesis
      by (simp add: run_context_unreadable [OF False ctx Inl])
  next
    case (Inr mt)
    show ?thesis
    proof (cases "fst (?G ctx)")
      case (Inl e)
      show ?thesis
        by (simp add: run_generation_failed [OF False ctx Inr Inl])
    next
      case (Inr result)
      show ?thesis
        by (simp add: run_success [OF False ctx \<open>get_prop ctx ''messageType'' = Inr mt\<close> Inr])
    qed
  qed
  have ends:
    "(\<exists>mt result.
        get_prop ctx ''messageType'' = Inr mt \<and> fst (?G ctx) = Inr result
      \<and> replySentences (fst ?run) = reply_sentences result
      \<and> toneDescription (fst ?run) = reply_toneDescription result
      \<and> error (fst ?run) = None \<and> progress (fst ?run) = COMPLETED)
     \<or> (\<exists>e. (get_prop ctx ''messageType'' = Inl e
              \<or> (\<exists>mt. get_prop ctx ''messageType'' = Inr mt \<and> fst (?G ctx) = Inl e))
           \<and> error (fst ?run) = Some (shown_error e) \<and> progress (fst ?run) = FAILED (error_message e)
           \<and> replySentences (fst ?run) = JArr [] \<and> toneDescription (fst ?run) = JStr [])"
  proof (cases "get_prop ctx ''messageType''")
    case (Inl e)
    have "error (fst ?run) = Some (shown_error e)" and "progress (fst ?run) = FAILED (error_message e)"
      and "replySentences (fst ?run) = JArr []" and "toneDescription (fst ?run) = JStr []"
      by (simp_all add: run_context_unreadable [OF False ctx Inl])
    with Inl show ?thesis
      by blast
  next
    case (Inr mt)
    show ?thesis
    proof (cases "fst (?G ctx)")
      case (Inl e)
      have "error (fst ?run) = Some (shown_error e)" and "progress (fst ?run) = FAILED (error_message e)"
        and "replySentences (fst ?run) = JArr []" and "toneDescription (fst ?run) = JStr []"
        by (simp_all add: run_generation_failed [OF False ctx Inr Inl])
      with Inl Inr show ?thesis
        by blast
    next
      case (Inr result)
      have "replySentences (fst ?run) = reply_sentences result"
        and "toneDescription (fst ?run) = reply_toneDescription result"
        and "error (fst ?run) = None" and "progress (fst ?run) = COMPLETED"
        by (simp_all add: run_success [OF False ctx \<open>get_prop ctx ''messageType'' = Inr mt\<close> Inr])
      with Inr \<open>get_prop ctx ''messageType'' = Inr mt\<close> show ?thesis
        by blast
    qed
  qed
  have "model_calls RESETS = []"
    by simp
  with False resets ends ctx show ?thesis
    by auto
qed

text \<open>
  A state that shows the reply of an earlier run, and a run whose reply request is
  rejected: the error is shown and the earlier reply is gone.
\<close>

theorem handleGenerateReply_error_excludes_reply_witness:
  "replySentences SAMPLE_STATE_WITH_REPLY = SAMPLE_SENTENCES
   \<and> error (fst (handleGenerateReply FAILING_REPLY_SERVICE SAMPLE_PARSE None SAMPLE_STATE_WITH_REPLY))
       = Some GENERIC_FAILURE_MESSAGE
   \<and> replySentences (fst (handleGenerateReply FAILING_REPLY_SERVICE SAMPLE_PARSE None SAMPLE_STATE_WITH_REPLY))
       = JArr []"
proof -
  have r: "replySentences SAMPLE_STATE_WITH_REPLY = SAMPLE_SENTENCES"
    by (simp add: SAMPLE_STATE_WITH_REPLY_def)
  have shown: "shown_error (Error GENERIC_FAILURE_MESSAGE) = GENERIC_FAILURE_MESSAGE"
    by (simp add: shown_error_def GENERIC_FAILURE_MESSAGE_def)
  show ?thesis
    using handleGenerateReply_error_excludes_reply
      [of None SAMPLE_STATE_WITH_REPLY FAILING_REPLY_SERVICE SAMPLE_PARSE]
      sample_nonblank(2) r shown
    by (auto simp: sample_message sample_analysis sample_readable with_reply_fields
        sample_generation_failing)
qed

text \<open>
  The claim as stated fails on the run that the guard stops: the state shows the reply
  of an earlier run, the message is blank, and the run ends with an error text and the
  earlier reply still there.
\<close>

theorem blank_message_keeps_reply_counterexample:
  "error (fst (handleGenerateReply SAMPLE_SERVICE SAMPLE_PARSE (Some ''   '')
                 (SAMPLE_STATE_WITH_REPLY\<lparr>studentMessage := []\<rparr>))) = Some EMPTY_MESSAGE_ERROR
   \<and> replySentences (fst (handleGenerateReply SAMPLE_SERVICE SAMPLE_PARSE (Some ''   '')
                 (SAMPLE_STATE_WITH_REPLY\<lparr>studentMessage := []\<rparr>))) = SAMPLE_SENTENCES
   \<and> SAMPLE_SENTENCES \<noteq> JArr []
   \<and> snd (handleGenerateReply SAMPLE_SERVICE SAMPLE_PARSE (Some ''   '')
                 (SAMPLE_STATE_WITH_REPLY\<lparr>studentMessage := []\<rparr>)) = [SetError (Some EMPTY_MESSAGE_ERROR)]"
proof -
  have "trim (finalMessage (Some ''   '') (SAMPLE_STATE_WITH_REPLY\<lparr>studentMessage := []\<rparr>)) = []"
    by (simp add: finalMessage_def trim_def trimEnd_def ws1_def)
  then show ?thesis
    by (simp add: run_blank SAMPLE_STATE_WITH_REPLY_def SAMPLE_SENTENCES_def)
qed

section \<open>The option lists, the tone select and the stored settings\<close>

lemma ReplyTone_UNIV: "UNIV = {FORMAL, FRIENDLY, WARM_MOTIVATIONAL, BRIEF_DIRECT, ISLAMIC, FOR_KIDS}"
  by (auto intro: ReplyTone.exhaust)

lemma IntegrationPlatform_UNIV: "UNIV = {WHATSAPP, EMAIL, GENERIC}"
  by (auto intro: IntegrationPlatform.exhaust)

lemma tone_option_values:
  "map fst TONE_OPTIONS =
     map ReplyTone_value [FRIENDLY, WARM_MOTIVATIONAL, FORMAL, BRIEF_DIRECT, ISLAMIC, FOR_KIDS]"
  by (simp add: TONE_OPTIONS_def)

lemma platform_option_values:
  "map fst PLATFORM_OPTIONS = map IntegrationPlatform_value [WHATSAPP, EMAIL, GENERIC]"
  by (simp add: PLATFORM_OPTIONS_def)

lemma useLocalStorage_init_parsed:
  assumes "getItem st key = Inr (Some t)" and "t \<noteq> []" and "parse t = Inr v"
  shows "useLocalStorage_init parse st key initialValue = (v, [])"
  using assms by (simp add: useLocalStorage_init_def)

lemma stored_item:
  "getItem (EMPTY_STORAGE\<lparr>items := [SETTINGS_KEY \<mapsto> t]\<rparr>) SETTINGS_KEY = Inr (Some t)"
  by (simp add: getItem_def EMPTY_STORAGE_def)

text \<open>
  Claim C7, as the code has it. \<^verbatim>\<open>TONE_OPTIONS\<close> lists exactly the six values of
  \<^verbatim>\<open>ReplyTone\<close> and \<^verbatim>\<open>PLATFORM_OPTIONS\<close> exactly the three values of
  \<^verbatim>\<open>IntegrationPlatform\<close>, each once, so the tone select offers those six values only.
  Nothing rejects or ignores any other value: the select's change handler stores the
  string of the event whatever it is, and the platform is the one of the stored
  settings as \<^verbatim>\<open>JSON.parse\<close> gave them (the source has no platform selector).
\<close>

theorem options_closed_values_unchecked:
  "set (map fst TONE_OPTIONS) = range ReplyTone_value
   \<and> distinct (map fst TONE_OPTIONS) \<and> length TONE_OPTIONS = 6
   \<and> set (map fst PLATFORM_OPTIONS) = range IntegrationPlatform_value
   \<and> distinct (map fst PLATFORM_OPTIONS) \<and> length PLATFORM_OPTIONS = 3
   \<and> replyTone (onChange_replyTone target_value s) = target_value
   \<and> (getItem st SETTINGS_KEY = Inr (Some t) \<and> t \<noteq> [] \<and> parse t = Inr v \<longrightarrow>
        platform (fst (useLocalStorage_init parse st SETTINGS_KEY INITIAL_SETTINGS)) = platform v)"
proof -
  have "set (map fst TONE_OPTIONS) = range ReplyTone_value"
    by (simp add: tone_option_values ReplyTone_UNIV insert_commute)
  moreover have "distinct (map fst TONE_OPTIONS)"
    by (simp add: tone_option_values)
  moreover have "length TONE_OPTIONS = 6"
    by (simp add: TONE_OPTIONS_def)
  moreover have "set (map fst PLATFORM_OPTIONS) = range IntegrationPlatform_value"
    by (simp add: platform_option_values IntegrationPlatform_UNIV)
  moreover have "distinct (map fst PLATFORM_OPTIONS)"
    by (simp add: platform_option_values)
  moreover have "length PLATFORM_OPTIONS = 3"
    by (simp add: PLATFORM_OPTIONS_def)
  moreover have "replyTone (onChange_replyTone target_value s) = target_value"
    by (simp add: onChange_replyTone_def)
  moreover have "getItem st SETTINGS_KEY = Inr (Some t) \<and> t \<noteq> [] \<and> parse t = Inr v \<longrightarrow>
        platform (fst (useLocalStorage_init parse st SETTINGS_KEY INITIAL_SETTINGS)) = platform v"
    by (simp add: useLocalStorage_init_parsed)
  ultimately show ?thesis
    by blast
qed

text \<open>Stored settings with the platform Email are loaded with that platform.\<close>

theorem options_closed_values_unchecked_witness:
  "platform (fst (useLocalStorage_init
       (parse_table [(EMAIL_SETTINGS_TEXT, INITIAL_SETTINGS\<lparr>platform := ''Email''\<rparr>)])
       (EMPTY_STORAGE\<lparr>items := [SETTINGS_KEY \<mapsto> EMAIL_SETTINGS_TEXT]\<rparr>)
       SETTINGS_KEY INITIAL_SETTINGS)) = ''Email''
   \<and> ''Email'' \<in> set (map fst PLATFORM_OPTIONS)"
proof -
  have a: "EMAIL_SETTINGS_TEXT \<noteq> []"
    by (simp add: EMAIL_SETTINGS_TEXT_def)
  have b: "parse_table [(EMAIL_SETTINGS_TEXT, INITIAL_SETTINGS\<lparr>platform := ''Email''\<rparr>)] EMAIL_SETTINGS_TEXT
             = Inr (INITIAL_SETTINGS\<lparr>platform := ''Email''\<rparr>)"
    by (simp add: parse_table_def)
  have c: "''Email'' \<in> set (map fst PLATFORM_OPTIONS)"
    by (simp add: PLATFORM_OPTIONS_def)
  show ?thesis
    using options_closed_values_unchecked
      [of _ _ "EMPTY_STORAGE\<lparr>items := [SETTINGS_KEY \<mapsto> EMAIL_SETTINGS_TEXT]\<rparr>" EMAIL_SETTINGS_TEXT
          "parse_table [(EMAIL_SETTINGS_TEXT, INITIAL_SETTINGS\<lparr>platform := ''Email''\<rparr>)]"
          "INITIAL_SETTINGS\<lparr>platform := ''Email''\<rparr>"]
      stored_item [of EMAIL_SETTINGS_TEXT] a b c
    by simp
qed

text \<open>
  The claim as stated fails: a change event that carries \<^verbatim>\<open>Sarcastic\<close> makes that the
  tone, and stored settings with the platform \<^verbatim>\<open>Telegram\<close> are loaded with it; neither
  is among the options.
\<close>

theorem unrecognized_values_accepted_counterexample:
  "replyTone (onChange_replyTone ''Sarcastic'' SAMPLE_STATE) = ''Sarcastic''
   \<and> ''Sarcastic'' \<notin> set (map fst TONE_OPTIONS)
   \<and> platform (fst (useLocalStorage_init
       (parse_table [(TELEGRAM_SETTINGS_TEXT, INITIAL_SETTINGS\<lparr>platform := ''Telegram''\<rparr>)])
       (EMPTY_STORAGE\<lparr>items := [SETTINGS_KEY \<mapsto> TELEGRAM_SETTINGS_TEXT]\<rparr>)
       SETTINGS_KEY INITIAL_SETTINGS)) = ''Telegram''
   \<and> ''Telegram'' \<notin> set (map fst PLATFORM_OPTIONS)"
proof -
  have "TELEGRAM_SETTINGS_TEXT \<noteq> []"
    by (simp add: TELEGRAM_SETTINGS_TEXT_def)
  then have "useLocalStorage_init
       (parse_table [(TELEGRAM_SETTINGS_TEXT, INITIAL_SETTINGS\<lparr>platform := ''Telegram''\<rparr>)])
       (EMPTY_STORAGE\<lparr>items := [SETTINGS_KEY \<mapsto> TELEGRAM_SETTINGS_TEXT]\<rparr>)
       SETTINGS_KEY INITIAL_SETTINGS = (INITIAL_SETTINGS\<lparr>platform := ''Telegram''\<rparr>, [])"
    by (simp add: useLocalStorage_init_parsed [OF stored_item] parse_table_def)
  then show ?thesis
    by (simp add: onChange_replyTone_def TONE_OPTIONS_def PLATFORM_OPTIONS_def)
qed

section \<open>The theme and the storage\<close>

subsection \<open>The parser reads back what \<^verbatim>\<open>JSON.stringify\<close> wrote\<close>

lemma hex_value_hex_digit: "n < 16 \<Longrightarrow> hex_value (hex_digit n) = Some n"
proof -
  have "list_all (\<lambda>k. hex_value (hex_digit k) = Some k) [0..<16]"
    by (simp add: upt_rec hex_digit_def hex_value_def)
  then show "n < 16 \<Longrightarrow> hex_value (hex_digit n) = Some n"
    by (simp add: list_all_iff)
qed

lemma hex_value_zero: "hex_value (CHR ''0'') = Some 0"
  by (simp add: hex_value_def)

lemma prepend_simps [simp]:
  "prepend c None = None"
  "prepend c (Some (v, r)) = Some (c # v, r)"
  by (simp_all add: prepend_def)

lemma parse_chars_control:
  assumes "(of_char c :: nat) < 0x20"
  shows "parse_chars ([CHR 0x5C, CHR ''u'', CHR ''0'', CHR ''0'', hex_digit (of_char c div 16), hex_digit (of_char c)] @ X)
           = prepend c (parse_chars X)"
proof -
  let ?x = "of_char c :: nat"
  have a: "hex_value (hex_digit (?x div 16)) = Some (?x div 16)"
    using assms by (intro hex_value_hex_digit) simp
  have "hex_digit ?x = hex_digit (?x mod 16)"
    by (simp add: hex_digit_def)
  then have b: "hex_value (hex_digit ?x) = Some (?x mod 16)"
    using hex_value_hex_digit [of "?x mod 16"] by simp
  have v: "((0 * 16 + 0) * 16 + ?x div 16) * 16 + ?x mod 16 = ?x"
    by simp
  have small: "?x < 0x80"
    using assms by simp
  show ?thesis
    using small by (simp add: a b hex_value_zero v)
qed

lemma parse_chars_quote_char:
  "parse_chars (quote_char c @ X) = prepend c (parse_chars X)"
proof -
  consider (b) "c = CHR 0x08" | (t) "c = CHR 0x09" | (n) "c = CHR 0x0A" | (f) "c = CHR 0x0C"
    | (r) "c = CHR 0x0D" | (q) "c = CHR 0x22" | (bs) "c = CHR 0x5C"
    | (control) "c \<noteq> CHR 0x08" "c \<noteq> CHR 0x09" "c \<noteq> CHR 0x0A" "c \<noteq> CHR 0x0C" "c \<noteq> CHR 0x0D"
        "c \<noteq> CHR 0x22" "c \<noteq> CHR 0x5C" "(of_char c :: nat) < 0x20"
    | (plain) "c \<noteq> CHR 0x08" "c \<noteq> CHR 0x09" "c \<noteq> CHR 0x0A" "c \<noteq> CHR 0x0C" "c \<noteq> CHR 0x0D"
        "c \<noteq> CHR 0x22" "c \<noteq> CHR 0x5C" "\<not> (of_char c :: nat) < 0x20"
    by blast
  then show ?thesis
  proof cases
    case b then show ?thesis by (simp add: quote_char_def simple_escape_def)
  next
    case t then show ?thesis by (simp add: quote_char_def simple_escape_def)
  next
    case n then show ?thesis by (simp add: quote_char_def simple_escape_def)
  next
    case f then show ?thesis by (simp add: quote_char_def simple_escape_def)
  next
    case r then show ?thesis by (simp add: quote_char_def simple_escape_def)
  next
    case q then show ?thesis by (simp add: quote_char_def simple_escape_def)
  next
    case bs then show ?thesis by (simp add: quote_char_def simple_escape_def)
  next
    case control
    then have "quote_char c = [CHR 0x5C, CHR ''u'', CHR ''0'', CHR ''0'', hex_digit (of_char c div 16), hex_digit (of_char c)]"
      by (simp add: quote_char_def)
    then show ?thesis
      using parse_chars_control [of c X] control by simp
  next
    case plain
    then have "quote_char c = [c]"
      by (simp add: quote_char_def)
    then show ?thesis
      using plain by simp
  qed
qed

lemma parse_chars_quoted:
  "parse_chars (concat (map quote_char s) @ CHR 0x22 # r) = Some (s, r)"
  by (induction s) (simp_all add: parse_chars_quote_char)

lemma skip_ws_Cons: "\<not> json_ws c \<Longrightarrow> skip_ws (c # s) = c # s"
  by (simp add: skip_ws_def)

lemma skip_ws_Nil [simp]: "skip_ws [] = []"
  by (simp add: skip_ws_def)

lemma json_ws_marks [simp]:
  "\<not> json_ws (CHR 0x22)" "\<not> json_ws (CHR ''['')" "\<not> json_ws (CHR '']'')" "\<not> json_ws (CHR ''{'')"
  "\<not> json_ws (CHR ''}'')" "\<not> json_ws (CHR '','')" "\<not> json_ws (CHR '':'')" "\<not> json_ws (CHR ''t'')"
  "\<not> json_ws (CHR ''f'')" "\<not> json_ws (CHR ''n'')"
  by (simp_all add: json_ws_def)

lemma value_start_facts:
  "value_start c \<Longrightarrow> \<not> json_ws c \<and> c \<noteq> CHR '']'' \<and> c \<noteq> CHR ''}''"
  by (auto simp: value_start_def json_ws_def)

lemma stringify_head:
  "JSON_stringify_model v = Some t \<Longrightarrow> \<exists>c cs. t = c # cs \<and> value_start c"
  by (cases v) (auto simp: value_start_def QuoteJSONString_def split: if_splits)

lemma separated_head:
  "ts \<noteq> [] \<Longrightarrow> hd ts = c # cs \<Longrightarrow> \<exists>cs'. separated ts = c # cs'"
  by (cases ts rule: separated.cases) auto

lemma build_object_plain:
  "distinct (map fst (acc @ kvs)) \<Longrightarrow> list_all (\<lambda>k. \<not> is_digits k) (map fst kvs) \<Longrightarrow>
     build_object acc kvs = Some (acc @ kvs)"
proof (induction kvs arbitrary: acc)
  case Nil
  then show ?case by simp
next
  case (Cons kv kvs)
  obtain k v where kv: "kv = (k, v)" by (cases kv)
  from Cons.prems have fresh: "k \<notin> set (map fst acc)"
    by (auto simp: kv)
  then have put: "put_property k v acc = acc @ [(k, v)]"
    by (simp add: put_property_def)
  have "build_object (acc @ [(k, v)]) kvs = Some ((acc @ [(k, v)]) @ kvs)"
    using Cons.prems by (intro Cons.IH) (auto simp: kv)
  then show ?case
    using Cons.prems by (simp add: kv put)
qed

lemma round_trips_elements:
  assumes "\<forall>x \<in> set xs. round_trips x"
    and "xs \<noteq> []"
    and "those (map JSON_stringify_model xs) = Some ts"
    and "length (separated ts) + 1 < n"
  shows "parse_elements n (separated ts @ CHR '']'' # r) = Some (xs, r)"
  using assms
proof (induction xs arbitrary: ts n)
  case Nil
  then show ?case by simp
next
  case (Cons x xs)
  from Cons.prems(3) obtain t ts' where t: "JSON_stringify_model x = Some t"
    and ts': "those (map JSON_stringify_model xs) = Some ts'" and ts: "ts = t # ts'"
    by (auto split: option.splits)
  from Cons.prems(4) obtain m where n: "n = Suc m"
    by (cases n) auto
  have px: "round_trips x"
    using Cons.prems(1) by simp
  show ?case
  proof (cases xs)
    case Nil
    then have "ts' = []" using ts' by simp
    then have sep: "separated ts = t" by (simp add: ts)
    have "length t < m"
      using Cons.prems(4) by (simp add: sep n)
    then have "parse_value m (t @ CHR '']'' # r) = Some (x, CHR '']'' # r)"
      using px t unfolding round_trips_def by blast
    then show ?thesis
      by (simp add: n sep Nil skip_ws_Cons)
  next
    case (Cons y ys)
    then obtain u us where us: "ts' = u # us"
      using ts' by (auto split: option.splits)
    have sep: "separated ts = t @ '','' @ separated ts'"
      by (simp add: ts us)
    have lt: "length t < m"
      using Cons.prems(4) by (simp add: sep n)
    have first: "parse_value m (t @ ('','' @ separated ts' @ CHR '']'' # r)) = Some (x, '','' @ separated ts' @ CHR '']'' # r)"
      using px t lt unfolding round_trips_def by blast
    obtain c cs where "t = c # cs"
      using stringify_head [OF t] by blast
    then have "length (separated ts') + 1 < m"
      using \<open>length (separated ts) + 1 < n\<close> by (simp add: sep n)
    then have rest: "parse_elements m (separated ts' @ CHR '']'' # r) = Some (xs, r)"
      using Cons.IH [of ts' m] Cons.prems(1) ts' \<open>xs = y # ys\<close> by simp
    show ?thesis
      using first rest by (simp add: n sep skip_ws_Cons)
  qed
qed

lemma round_trips_members:
  assumes "\<forall>kv \<in> set props. round_trips (snd kv)"
    and "props \<noteq> []"
    and "those (map member_text props) = Some ms"
    and "length (separated ms) + 1 < n"
  shows "parse_members n (separated ms @ CHR ''}'' # r) = Some (props, r)"
  using assms
proof (induction props arbitrary: ms n)
  case Nil
  then show ?case by simp
next
  case (Cons kv props)
  obtain k v where kv: "kv = (k, v)" by (cases kv)
  from Cons.prems(3) obtain mt ms' where mt: "member_text kv = Some mt"
    and ms': "those (map member_text props) = Some ms'" and ms: "ms = mt # ms'"
    by (auto split: option.splits)
  from mt obtain t where t: "JSON_stringify_model v = Some t"
    and mt_def: "mt = QuoteJSONString k @ '':'' @ t"
    by (auto simp: member_text_def kv)
  from Cons.prems(4) obtain m where n: "n = Suc m"
    by (cases n) auto
  have pv: "round_trips v"
    using Cons.prems(1) by (simp add: kv)
  have key: "parse_chars (concat (map quote_char k) @ CHR 0x22 # X) = Some (k, X)" for X
    by (rule parse_chars_quoted)
  show ?case
  proof (cases props)
    case Nil
    then have "ms' = []" using ms' by simp
    then have sep: "separated ms = mt" by (simp add: ms)
    have "length t < m"
      using Cons.prems(4) by (simp add: sep n mt_def)
    then have "parse_value m (t @ CHR ''}'' # r) = Some (v, CHR ''}'' # r)"
      using pv t unfolding round_trips_def by blast
    then show ?thesis
      using key by (simp add: n sep Nil kv mt_def QuoteJSONString_def skip_ws_Cons)
  next
    case (Cons kv' props')
    then obtain u us where us: "ms' = u # us"
      using ms' by (auto split: option.splits)
    have sep: "separated ms = mt @ '','' @ separated ms'"
      by (simp add: ms us)
    have lt: "length t < m"
      using Cons.prems(4) by (simp add: sep n mt_def)
    have first: "parse_value m (t @ ('','' @ separated ms' @ CHR ''}'' # r))
                   = Some (v, '','' @ separated ms' @ CHR ''}'' # r)"
      using pv t lt unfolding round_trips_def by blast
    have "length (separated ms') + 1 < m"
      using \<open>length (separated ms) + 1 < n\<close> by (simp add: sep n mt_def QuoteJSONString_def)
    then have rest: "parse_members m (separated ms' @ CHR ''}'' # r) = Some (props, r)"
      using Cons.IH [of ms' m] Cons.prems(1) ms' \<open>props = kv' # props'\<close> by simp
    show ?thesis
      using first rest key by (simp add: n sep kv mt_def QuoteJSONString_def skip_ws_Cons)
  qed
qed

lemma member_text_fun:
  "(\<lambda>(k, v). map_option (\<lambda>t. QuoteJSONString k @ '':'' @ t) (JSON_stringify_model v)) = member_text"
  by (rule ext) (simp add: member_text_def)

lemma stringify_object:
  "JSON_stringify_model (JObj props) =
     (if plain_keys (map fst props)
      then map_option (\<lambda>ts. ''{'' @ separated ts @ ''}'') (those (map member_text props))
      else None)"
  unfolding JSON_stringify_model.simps member_text_fun ..

lemma member_text_head:
  "member_text kv = Some t \<Longrightarrow> \<exists>cs. t = CHR 0x22 # cs"
  by (cases kv) (auto simp: member_text_def QuoteJSONString_def)

lemma round_trips_all: "round_trips v"
proof (induction v)
  case JUndefined
  show ?case by (simp add: round_trips_def)
next
  case JNull
  show ?case
  proof (unfold round_trips_def, intro allI impI)
    fix t n r
    assume "JSON_stringify_model JNull = Some t" and "length t < n"
    then obtain m where "n = Suc m" and "t = ''null''"
      by (cases n) auto
    then show "parse_value n (t @ r) = Some (JNull, r)"
      by (simp add: skip_ws_Cons)
  qed
next
  case (JBool b)
  show ?case
  proof (unfold round_trips_def, intro allI impI)
    fix t n r
    assume "JSON_stringify_model (JBool b) = Some t" and "length t < n"
    then obtain m where "n = Suc m" and "t = (if b then ''true'' else ''false'')"
      by (cases n) auto
    then show "parse_value n (t @ r) = Some (JBool b, r)"
      by (simp add: skip_ws_Cons)
  qed
next
  case (JNum x)
  show ?case by (simp add: round_trips_def)
next
  case (JStr s)
  show ?case
  proof (unfold round_trips_def, intro allI impI)
    fix t n r
    assume "JSON_stringify_model (JStr s) = Some t" and "length t < n"
    then obtain m where "n = Suc m" and "t = QuoteJSONString s"
      by (cases n) (auto split: if_splits)
    then show "parse_value n (t @ r) = Some (JStr s, r)"
      by (simp add: skip_ws_Cons QuoteJSONString_def parse_chars_quoted)
  qed
next
  case (JArr xs)
  show ?case
  proof (unfold round_trips_def, intro allI impI)
    fix t n r
    assume st: "JSON_stringify_model (JArr xs) = Some t" and len: "length t < n"
    then obtain ts where ts: "those (map JSON_stringify_model xs) = Some ts"
      and t: "t = ''['' @ separated ts @ '']''"
      by auto
    from len obtain m where n: "n = Suc m"
      by (cases n) auto
    show "parse_value n (t @ r) = Some (JArr xs, r)"
    proof (cases xs)
      case Nil
      then have "ts = []" using ts by simp
      then show ?thesis
        by (simp add: n t Nil skip_ws_Cons)
    next
      case (Cons x xs')
      then obtain u us where us: "ts = u # us" and u: "JSON_stringify_model x = Some u"
        using ts by (auto split: option.splits)
      obtain c cs where c: "u = c # cs" "value_start c"
        using stringify_head [OF u] by blast
      then obtain cs' where head: "separated ts = c # cs'"
        using separated_head [of ts c cs] us by auto
      have "length (separated ts) + 1 < m"
        using len by (simp add: t n)
      then have "parse_elements m (separated ts @ CHR '']'' # r) = Some (xs, r)"
        using round_trips_elements [of xs ts m r] JArr.IH ts Cons by simp
      then show ?thesis
        using value_start_facts [OF c(2)] head
        by (simp add: n t skip_ws_Cons)
    qed
  qed
next
  case (JObj props)
  show ?case
  proof (unfold round_trips_def, intro allI impI)
    fix t n r
    assume st: "JSON_stringify_model (JObj props) = Some t" and len: "length t < n"
    then obtain ms where plain: "plain_keys (map fst props)"
      and ms: "those (map member_text props) = Some ms"
      and t: "t = ''{'' @ separated ms @ ''}''"
      unfolding stringify_object by (auto split: if_splits)
    from len obtain m where n: "n = Suc m"
      by (cases n) auto
    have built: "build_object [] props = Some props"
      using build_object_plain [of "[]" props] plain
      by (simp add: plain_keys_def list_all_iff)
    show "parse_value n (t @ r) = Some (JObj props, r)"
    proof (cases props)
      case Nil
      then have "ms = []" using ms by simp
      then show ?thesis
        by (simp add: n t Nil skip_ws_Cons)
    next
      case (Cons kv props')
      then obtain u us where us: "ms = u # us" and u: "member_text kv = Some u"
        using ms by (auto split: option.splits)
      obtain cs where c: "u = CHR 0x22 # cs"
        using member_text_head [OF u] by blast
      then obtain cs' where head: "separated ms = CHR 0x22 # cs'"
        using separated_head [of ms "CHR 0x22" cs] us by auto
      have IH: "\<forall>kv \<in> set props. round_trips (snd kv)"
        using JObj.IH by (auto simp: snds.simps)
      have "length (separated ms) + 1 < m"
        using len by (simp add: t n)
      then have "parse_members m (separated ms @ CHR ''}'' # r) = Some (props, r)"
        using round_trips_members [of props ms m r] IH ms Cons by simp
      then show ?thesis
        using head built
        by (simp add: n t skip_ws_Cons)
    qed
  qed
qed

lemma JSON_round_trip:
  assumes "JSON_stringify_model v = Some t"
  shows "JSON_parse_model t = Some v"
proof -
  have "parse_value (Suc (length t)) (t @ []) = Some (v, [])"
    using round_trips_all [of v] assms unfolding round_trips_def by blast
  then show ?thesis
    by (simp add: JSON_parse_model_def)
qed

subsection \<open>The theme button\<close>

lemma getItem_after_write:
  "\<not> access_denied st \<Longrightarrow> getItem (st\<lparr>items := (items st)(key \<mapsto> t)\<rparr>) key = Inr (Some t)"
  by (simp add: getItem_def)

lemma map_of_put_property: "map_of (put_property k v props) k = Some v"
proof (cases "k \<in> set (map fst props)")
  case True
  have "k \<in> set (map fst ps) \<Longrightarrow>
        map_of (map (\<lambda>(k', v'). if k' = k then (k', v) else (k', v')) ps) k = Some v" for ps
    by (induction ps) auto
  with True show ?thesis
    by (simp add: put_property_def)
next
  case False
  then have "map_of props k = None"
    by (simp add: map_of_eq_None_iff)
  with False show ?thesis
    by (simp add: put_property_def map_add_def)
qed

lemma keys_put_property:
  "map fst (put_property k v props) = (if k \<in> set (map fst props) then map fst props else map fst props @ [k])"
proof -
  have "map fst (map (\<lambda>(k', v'). if k' = k then (k', v) else (k', v')) ps) = map fst ps" for ps
    by (induction ps) auto
  then show ?thesis
    by (simp add: put_property_def)
qed

lemma those_Some_iff: "(\<exists>ys. those xs = Some ys) = (None \<notin> set xs)"
  by (induction xs) (auto split: option.splits)

lemma member_text_put_property:
  assumes "None \<notin> set (map member_text props)" and "member_text (k, v) \<noteq> None"
  shows "None \<notin> set (map member_text (put_property k v props))"
proof -
  have "set (put_property k v props) \<subseteq> insert (k, v) (set props)"
    by (auto simp: put_property_def split: if_splits)
  then show ?thesis
    using assms by (auto simp: image_iff) 
qed

lemma stringify_put_property:
  assumes "JSON_stringify_model (JObj props) = Some t"
    and "JSON_stringify_model v \<noteq> None" and "\<not> is_digits k" and "\<not> has_surrogate k"
  shows "JSON_stringify_model (JObj (put_property k v props)) \<noteq> None"
proof -
  from assms(1) obtain ms0 where plain: "plain_keys (map fst props)"
    and ms0: "those (map member_text props) = Some ms0"
    unfolding stringify_object by (auto split: if_splits)
  have texts: "None \<notin> set (map member_text props)"
    using ms0 those_Some_iff [of "map member_text props"] by blast
  have "plain_keys (map fst (put_property k v props))"
    using plain assms(3,4) by (auto simp: keys_put_property plain_keys_def)
  moreover have "member_text (k, v) \<noteq> None"
    using assms(2) by (simp add: member_text_def)
  then have "None \<notin> set (map member_text (put_property k v props))"
    using texts by (rule member_text_put_property [rotated])
  then obtain ms where "those (map member_text (put_property k v props)) = Some ms"
    using those_Some_iff by blast
  ultimately show ?thesis
    unfolding stringify_object by simp
qed

lemma theme_key_plain: "\<not> is_digits ''theme''" "\<not> has_surrogate ''theme''"
  by (simp_all add: is_digits_def)

lemma theme_text: "JSON_stringify_model (JStr (if c then ''light'' else ''dark'')) \<noteq> None"
  by simp

lemma toggleTheme_throws:
  "toggleTheme s = Inl e \<Longrightarrow> (s = JNull \<or> s = JUndefined) \<and> get_prop s ''theme'' = Inl e"
  by (cases s) (simp_all add: toggleTheme_def)

lemma toggleTheme_returns:
  assumes "toggleTheme s = Inr s'"
  shows "\<exists>current. get_prop s ''theme'' = Inr current
           \<and> s' = JObj (put_property ''theme'' (JStr (if current = JStr ''dark'' then ''light'' else ''dark''))
                          (own_properties s))"
  using assms by (cases "get_prop s ''theme''") (auto simp: toggleTheme_def)

lemma setValue_updated:
  assumes "f s = Inr s'"
  shows "fst (fst (setValue stringify key (Updater f) (s, st))) = s'"
  using assms by (simp add: setValue_def Let_def bind_js_def split: sum.splits)

lemma setValue_not_written:
  assumes "f s = Inr s'" and "access_denied st \<or> quota_exceeded st"
  shows "snd (fst (setValue stringify key (Updater f) (s, st))) = st
       \<and> (\<exists>e. snd (setValue stringify key (Updater f) (s, st)) = [ConsoleError [] e])"
  using assms
  by (auto simp: setValue_def Let_def bind_js_def window_localStorage_def setItem_def split: sum.splits)

lemma setValue_written:
  assumes "f s = Inr s'" and "\<not> access_denied st" and "\<not> quota_exceeded st"
    and "stringify s' = Inr (Some t)"
  shows "setValue stringify key (Updater f) (s, st) = ((s', st\<lparr>items := (items st)(key \<mapsto> t)\<rparr>), [])"
  using assms by (simp add: setValue_def Let_def window_localStorage_def setItem_def)

lemma setValue_throwing_updater:
  assumes "f s = Inl e"
  shows "setValue stringify key (Updater f) (s, st) = ((s, st), [ConsoleError [] e])"
  using assms by (simp add: setValue_def Let_def)

lemma reload_written:
  assumes "\<forall>t v. JSON_parse_model t = Some v \<longrightarrow> parse t = Inr v"
    and "JSON_stringify_model v = Some t" and "\<not> access_denied st"
  shows "useLocalStorage_init parse (st\<lparr>items := (items st)(key \<mapsto> t)\<rparr>) key initialValue = (v, [])"
proof -
  have "t \<noteq> []"
    using stringify_head [OF assms(2)] by auto
  moreover have "parse t = Inr v"
    using assms(1) JSON_round_trip [OF assms(2)] by blast
  ultimately show ?thesis
    using getItem_after_write [OF assms(3), of key t]
    by (simp add: useLocalStorage_init_def)
qed

lemma setValue_access_denied:
  assumes "f s = Inr s'" and "access_denied st"
  shows "setValue stringify key (Updater f) (s, st)
           = ((s', st), [ConsoleError [] (DOMException ''SecurityError'')])"
  using assms by (simp add: setValue_def Let_def window_localStorage_def)

lemma setValue_quota_exceeded:
  assumes "f s = Inr s'" and "\<not> access_denied st" and "quota_exceeded st"
    and "stringify s' = Inr (Some t)"
  shows "setValue stringify key (Updater f) (s, st)
           = ((s', st), [ConsoleError [] (DOMException ''QuotaExceededError'')])"
  using assms by (simp add: setValue_def Let_def window_localStorage_def setItem_def)

lemma reload_access_denied:
  assumes "access_denied st"
  shows "useLocalStorage_init parse st key initialValue
           = (initialValue, [ConsoleError [] (DOMException ''SecurityError'')])"
  using assms by (simp add: useLocalStorage_init_def getItem_def)

text \<open>
  Claim C8, as the code has it. Let \<^verbatim>\<open>JSON.parse\<close> and \<^verbatim>\<open>JSON.stringify\<close> be any two
  functions that return what the two models compute, wherever these compute a result.
  The theme button is pressed on the settings \<open>s\<close> and the storage \<open>st\<close>.
  When \<open>s\<close> is \<^verbatim>\<open>null\<close> or \<^verbatim>\<open>undefined\<close>, reading \<^verbatim>\<open>s.theme\<close> throws: the hook logs the
  error, and state and storage stay as they were.
  Otherwise the state becomes the object \<open>s'\<close> that has the properties of \<open>s\<close>, in their
  order, with \<^verbatim>\<open>theme\<close> set to \<^verbatim>\<open>light\<close> when it was \<^verbatim>\<open>dark\<close> and to \<^verbatim>\<open>dark\<close> when it was
  anything else; if \<open>s\<close> is an object that the model serialises, so is \<open>s'\<close>.
  What a reload finds depends on the write. When the storage refuses it (access denied,
  or quota exceeded), the storage is as it was and one error is logged: the toggled
  theme is in the state only. With access denied the error is the \<^verbatim>\<open>SecurityError\<close>, and
  the reload, which cannot read either, starts with the initial value. Otherwise let the
  model serialise \<open>s'\<close> to the text \<open>t\<close>. With the quota exceeded the error is the
  \<^verbatim>\<open>QuotaExceededError\<close>. With neither, the storage holds \<open>t\<close> under \<^verbatim>\<open>appSettings_v3\<close>,
  nothing is logged, and the hook initialised again on that storage (a reload) starts
  with exactly \<open>s'\<close>, so with the toggled theme, whatever the initial value.
\<close>

theorem theme_round_trip:
  assumes "\<forall>t v. JSON_parse_model t = Some v \<longrightarrow> parse t = Inr v"
    and "\<forall>v t. JSON_stringify_model v = Some t \<longrightarrow> stringify v = Inr (Some t)"
  shows "case toggleTheme s of
           Inl e \<Rightarrow>
             (s = JNull \<or> s = JUndefined)
             \<and> setValue stringify SETTINGS_KEY (Updater toggleTheme) (s, st) = ((s, st), [ConsoleError [] e])
         | Inr s' \<Rightarrow>
             s' = JObj (put_property ''theme''
                          (JStr (if get_prop s ''theme'' = Inr (JStr ''dark'') then ''light'' else ''dark''))
                          (own_properties s))
             \<and> get_prop s' ''theme''
                 = Inr (JStr (if get_prop s ''theme'' = Inr (JStr ''dark'') then ''light'' else ''dark''))
             \<and> fst (fst (setValue stringify SETTINGS_KEY (Updater toggleTheme) (s, st))) = s'
             \<and> (\<forall>props. s = JObj props \<and> JSON_stringify_model s \<noteq> None \<longrightarrow> JSON_stringify_model s' \<noteq> None)
             \<and> (access_denied st \<or> quota_exceeded st \<longrightarrow>
                  snd (fst (setValue stringify SETTINGS_KEY (Updater toggleTheme) (s, st))) = st
                  \<and> (\<exists>e. snd (setValue stringify SETTINGS_KEY (Updater toggleTheme) (s, st))
                           = [ConsoleError [] e]))
             \<and> (if access_denied st
                then setValue stringify SETTINGS_KEY (Updater toggleTheme) (s, st)
                       = ((s', st), [ConsoleError [] (DOMException ''SecurityError'')])
                   \<and> useLocalStorage_init parse st SETTINGS_KEY initialValue
                       = (initialValue, [ConsoleError [] (DOMException ''SecurityError'')])
                else \<forall>t. JSON_stringify_model s' = Some t \<longrightarrow>
                       (if quota_exceeded st
                        then setValue stringify SETTINGS_KEY (Updater toggleTheme) (s, st)
                               = ((s', st), [ConsoleError [] (DOMException ''QuotaExceededError'')])
                        else setValue stringify SETTINGS_KEY (Updater toggleTheme) (s, st)
                               = ((s', st\<lparr>items := (items st)(SETTINGS_KEY \<mapsto> t)\<rparr>), [])
                           \<and> useLocalStorage_init parse (st\<lparr>items := (items st)(SETTINGS_KEY \<mapsto> t)\<rparr>)
                               SETTINGS_KEY initialValue = (s', [])))"
proof (cases "toggleTheme s")
  case (Inl e)
  then show ?thesis
    using toggleTheme_throws [OF Inl]
      setValue_throwing_updater
        [where f = toggleTheme and s = s and e = e and st = st and stringify = stringify
           and key = SETTINGS_KEY]
    by simp
next
  case (Inr s')
  let ?run = "setValue stringify SETTINGS_KEY (Updater toggleTheme) (s, st)"
  let ?written = "\<lambda>t. st\<lparr>items := (items st)(SETTINGS_KEY \<mapsto> t)\<rparr>"
  from Inr obtain current where current: "get_prop s ''theme'' = Inr current"
    and s': "s' = JObj (put_property ''theme'' (JStr (if current = JStr ''dark'' then ''light'' else ''dark''))
                          (own_properties s))"
    using toggleTheme_returns by blast
  have a: "s' = JObj (put_property ''theme''
                          (JStr (if get_prop s ''theme'' = Inr (JStr ''dark'') then ''light'' else ''dark''))
                          (own_properties s))"
    by (simp add: s' current)
  have b: "get_prop s' ''theme''
             = Inr (JStr (if get_prop s ''theme'' = Inr (JStr ''dark'') then ''light'' else ''dark''))"
    unfolding a by (simp add: map_of_put_property)
  have c: "fst (fst ?run) = s'"
    using Inr
      setValue_updated
        [where f = toggleTheme and s = s and s' = s' and st = st and stringify = stringify
           and key = SETTINGS_KEY]
    by simp
  have d: "\<forall>props. s = JObj props \<and> JSON_stringify_model s \<noteq> None \<longrightarrow> JSON_stringify_model s' \<noteq> None"
  proof (intro allI impI)
    fix props
    assume p: "s = JObj props \<and> JSON_stringify_model s \<noteq> None"
    then obtain t where "JSON_stringify_model (JObj props) = Some t"
      by auto
    then show "JSON_stringify_model s' \<noteq> None"
      unfolding s' using p theme_key_plain theme_text
      by (intro stringify_put_property [where t = t]) auto
  qed
  have e: "access_denied st \<or> quota_exceeded st \<longrightarrow>
             snd (fst ?run) = st \<and> (\<exists>e. snd ?run = [ConsoleError [] e])"
    using Inr
      setValue_not_written
        [where f = toggleTheme and s = s and s' = s' and st = st and stringify = stringify
           and key = SETTINGS_KEY]
    by simp
  have g: "if access_denied st
           then ?run = ((s', st), [ConsoleError [] (DOMException ''SecurityError'')])
              \<and> useLocalStorage_init parse st SETTINGS_KEY initialValue
                  = (initialValue, [ConsoleError [] (DOMException ''SecurityError'')])
           else \<forall>t. JSON_stringify_model s' = Some t \<longrightarrow>
                  (if quota_exceeded st
                   then ?run = ((s', st), [ConsoleError [] (DOMException ''QuotaExceededError'')])
                   else ?run = ((s', ?written t), [])
                      \<and> useLocalStorage_init parse (?written t) SETTINGS_KEY initialValue = (s', []))"
  proof (cases "access_denied st")
    case True
    have "?run = ((s', st), [ConsoleError [] (DOMException ''SecurityError'')])"
      using Inr True
        setValue_access_denied
          [where f = toggleTheme and s = s and s' = s' and st = st and stringify = stringify
             and key = SETTINGS_KEY]
      by simp
    moreover have "useLocalStorage_init parse st SETTINGS_KEY initialValue
                     = (initialValue, [ConsoleError [] (DOMException ''SecurityError'')])"
      using True by (rule reload_access_denied)
    ultimately show ?thesis
      unfolding if_P [OF True] by (rule conjI)
  next
    case False
    have "if quota_exceeded st
          then ?run = ((s', st), [ConsoleError [] (DOMException ''QuotaExceededError'')])
          else ?run = ((s', ?written t), [])
             \<and> useLocalStorage_init parse (?written t) SETTINGS_KEY initialValue = (s', [])"
      if t: "JSON_stringify_model s' = Some t" for t
    proof (cases "quota_exceeded st")
      case True
      have "stringify s' = Inr (Some t)"
        using assms(2) t by blast
      then have "?run = ((s', st), [ConsoleError [] (DOMException ''QuotaExceededError'')])"
        using Inr False True
          setValue_quota_exceeded
            [where f = toggleTheme and s = s and s' = s' and st = st and stringify = stringify
               and key = SETTINGS_KEY and t = t]
        by simp
      then show ?thesis
        unfolding if_P [OF True] .
    next
      case quota: False
      have "stringify s' = Inr (Some t)"
        using assms(2) t by blast
      then have "?run = ((s', ?written t), [])"
        using Inr False quota
          setValue_written
            [where f = toggleTheme and s = s and s' = s' and st = st and stringify = stringify
               and key = SETTINGS_KEY and t = t]
        by simp
      moreover have "useLocalStorage_init parse (?written t) SETTINGS_KEY initialValue = (s', [])"
        using reload_written
            [OF assms(1) t, where st = st and key = SETTINGS_KEY and initialValue = initialValue]
          False
        by simp
      ultimately show ?thesis
        unfolding if_not_P [OF quota] by (rule conjI)
    qed
    then show ?thesis
      unfolding if_not_P [OF False] by blast
  qed
  from conjI [OF a conjI [OF b conjI [OF c conjI [OF d conjI [OF e g]]]]] show ?thesis
    unfolding Inr sum.case .
qed

lemma model_parse_agrees: "\<forall>t v. JSON_parse_model t = Some v \<longrightarrow> model_parse t = Inr v"
  by (simp add: model_parse_def)

lemma model_stringify_agrees:
  "\<forall>v t. JSON_stringify_model v = Some t \<longrightarrow> model_stringify v = Inr (Some t)"
  by (simp add: model_stringify_def)

lemma toggle_dark: "toggleTheme DARK_SETTINGS = Inr LIGHT_SETTINGS"
  by (simp add: toggleTheme_def DARK_SETTINGS_def LIGHT_SETTINGS_def settings_object_def
      INITIAL_SETTINGS_def put_property_def)

lemma toggle_reordered: "toggleTheme REORDERED_SETTINGS = Inr REORDERED_DARK_SETTINGS"
  by (simp add: toggleTheme_def REORDERED_SETTINGS_def REORDERED_DARK_SETTINGS_def put_property_def)

lemma light_settings_text: "JSON_stringify_model LIGHT_SETTINGS = Some LIGHT_SETTINGS_TEXT"
  by (simp add: LIGHT_SETTINGS_def settings_object_def INITIAL_SETTINGS_def LIGHT_SETTINGS_TEXT_def
      plain_keys_def is_digits_def QuoteJSONString_def quote_char_def)

lemma reordered_settings_text:
  "JSON_stringify_model REORDERED_DARK_SETTINGS = Some REORDERED_DARK_SETTINGS_TEXT"
  by (simp add: REORDERED_DARK_SETTINGS_def REORDERED_DARK_SETTINGS_TEXT_def
      plain_keys_def is_digits_def QuoteJSONString_def quote_char_def)

lemma empty_storage_writable: "\<not> access_denied EMPTY_STORAGE" "\<not> quota_exceeded EMPTY_STORAGE"
  by (simp_all add: EMPTY_STORAGE_def)

text \<open>
  From the settings of the literal (dark) and an empty storage: the text written is the
  one with \<^verbatim>\<open>light\<close>, and the reload starts light. From stored settings with the theme
  first, another name and an unknown property: order and properties are kept, the theme
  goes from light to dark, and the reload starts with that object. From the settings of
  the literal and a storage that takes no more: the state is light and the storage is as
  it was.
\<close>

theorem theme_round_trip_witness:
  "toggleTheme DARK_SETTINGS = Inr LIGHT_SETTINGS
   \<and> get_prop DARK_SETTINGS ''theme'' = Inr (JStr ''dark'')
   \<and> get_prop LIGHT_SETTINGS ''theme'' = Inr (JStr ''light'')
   \<and> setValue model_stringify SETTINGS_KEY (Updater toggleTheme) (DARK_SETTINGS, EMPTY_STORAGE)
       = ((LIGHT_SETTINGS, EMPTY_STORAGE\<lparr>items := [SETTINGS_KEY \<mapsto> LIGHT_SETTINGS_TEXT]\<rparr>), [])
   \<and> useLocalStorage_init model_parse (EMPTY_STORAGE\<lparr>items := [SETTINGS_KEY \<mapsto> LIGHT_SETTINGS_TEXT]\<rparr>)
       SETTINGS_KEY DARK_SETTINGS = (LIGHT_SETTINGS, [])
   \<and> toggleTheme REORDERED_SETTINGS = Inr REORDERED_DARK_SETTINGS
   \<and> setValue model_stringify SETTINGS_KEY (Updater toggleTheme) (REORDERED_SETTINGS, EMPTY_STORAGE)
       = ((REORDERED_DARK_SETTINGS,
           EMPTY_STORAGE\<lparr>items := [SETTINGS_KEY \<mapsto> REORDERED_DARK_SETTINGS_TEXT]\<rparr>), [])
   \<and> useLocalStorage_init model_parse
       (EMPTY_STORAGE\<lparr>items := [SETTINGS_KEY \<mapsto> REORDERED_DARK_SETTINGS_TEXT]\<rparr>)
       SETTINGS_KEY DARK_SETTINGS = (REORDERED_DARK_SETTINGS, [])
   \<and> setValue model_stringify SETTINGS_KEY (Updater toggleTheme) (DARK_SETTINGS, FULL_STORAGE)
       = ((LIGHT_SETTINGS, FULL_STORAGE), [ConsoleError [] (DOMException ''QuotaExceededError'')])"
proof -
  have items: "items EMPTY_STORAGE = Map.empty"
    by (simp add: EMPTY_STORAGE_def)
  have full: "\<not> access_denied FULL_STORAGE" "quota_exceeded FULL_STORAGE"
    by (simp_all add: FULL_STORAGE_def EMPTY_STORAGE_def)
  have themes: "get_prop DARK_SETTINGS ''theme'' = Inr (JStr ''dark'')"
    "get_prop LIGHT_SETTINGS ''theme'' = Inr (JStr ''light'')"
    by (simp_all add: DARK_SETTINGS_def LIGHT_SETTINGS_def settings_object_def INITIAL_SETTINGS_def)
  have first:
    "setValue model_stringify SETTINGS_KEY (Updater toggleTheme) (DARK_SETTINGS, EMPTY_STORAGE)
       = ((LIGHT_SETTINGS, EMPTY_STORAGE\<lparr>items := [SETTINGS_KEY \<mapsto> LIGHT_SETTINGS_TEXT]\<rparr>), [])
     \<and> useLocalStorage_init model_parse (EMPTY_STORAGE\<lparr>items := [SETTINGS_KEY \<mapsto> LIGHT_SETTINGS_TEXT]\<rparr>)
         SETTINGS_KEY DARK_SETTINGS = (LIGHT_SETTINGS, [])"
    using theme_round_trip [OF model_parse_agrees model_stringify_agrees,
        where s = DARK_SETTINGS and st = EMPTY_STORAGE and initialValue = DARK_SETTINGS]
      empty_storage_writable light_settings_text
    by (simp add: toggle_dark items)
  have second:
    "setValue model_stringify SETTINGS_KEY (Updater toggleTheme) (REORDERED_SETTINGS, EMPTY_STORAGE)
       = ((REORDERED_DARK_SETTINGS,
           EMPTY_STORAGE\<lparr>items := [SETTINGS_KEY \<mapsto> REORDERED_DARK_SETTINGS_TEXT]\<rparr>), [])
     \<and> useLocalStorage_init model_parse
         (EMPTY_STORAGE\<lparr>items := [SETTINGS_KEY \<mapsto> REORDERED_DARK_SETTINGS_TEXT]\<rparr>)
         SETTINGS_KEY DARK_SETTINGS = (REORDERED_DARK_SETTINGS, [])"
    using theme_round_trip [OF model_parse_agrees model_stringify_agrees,
        where s = REORDERED_SETTINGS and st = EMPTY_STORAGE and initialValue = DARK_SETTINGS]
      empty_storage_writable reordered_settings_text
    by (simp add: toggle_reordered items)
  have third:
    "setValue model_stringify SETTINGS_KEY (Updater toggleTheme) (DARK_SETTINGS, FULL_STORAGE)
       = ((LIGHT_SETTINGS, FULL_STORAGE), [ConsoleError [] (DOMException ''QuotaExceededError'')])"
    using theme_round_trip [OF model_parse_agrees model_stringify_agrees,
        where s = DARK_SETTINGS and st = FULL_STORAGE and initialValue = DARK_SETTINGS]
      full light_settings_text
    by (simp add: toggle_dark)
  show ?thesis
    using first second third themes toggle_dark toggle_reordered by simp
qed

text \<open>
  The claim as stated fails where the write throws. With a storage whose quota is
  exceeded, the button turns the theme of the state to \<^verbatim>\<open>light\<close>, the hook logs the
  \<^verbatim>\<open>QuotaExceededError\<close>, nothing is stored, and the reload starts \<^verbatim>\<open>dark\<close> again.
\<close>

theorem failed_write_loses_theme_counterexample:
  "get_prop (fst (fst (setValue model_stringify SETTINGS_KEY (Updater toggleTheme)
                         (DARK_SETTINGS, FULL_STORAGE)))) ''theme'' = Inr (JStr ''light'')
   \<and> snd (setValue model_stringify SETTINGS_KEY (Updater toggleTheme) (DARK_SETTINGS, FULL_STORAGE))
       = [ConsoleError [] (DOMException ''QuotaExceededError'')]
   \<and> get_prop (fst (useLocalStorage_init model_parse
                      (snd (fst (setValue model_stringify SETTINGS_KEY (Updater toggleTheme)
                                   (DARK_SETTINGS, FULL_STORAGE))))
                      SETTINGS_KEY DARK_SETTINGS)) ''theme'' = Inr (JStr ''dark'')"
proof -
  have "setValue model_stringify SETTINGS_KEY (Updater toggleTheme) (DARK_SETTINGS, FULL_STORAGE)
          = ((LIGHT_SETTINGS, FULL_STORAGE), [ConsoleError [] (DOMException ''QuotaExceededError'')])"
    by (simp add: setValue_def Let_def toggle_dark model_stringify_def window_localStorage_def setItem_def
        FULL_STORAGE_def EMPTY_STORAGE_def)
  moreover have "useLocalStorage_init model_parse FULL_STORAGE SETTINGS_KEY DARK_SETTINGS = (DARK_SETTINGS, [])"
    by (simp add: useLocalStorage_init_def getItem_def FULL_STORAGE_def EMPTY_STORAGE_def)
  ultimately show ?thesis
    by (simp add: DARK_SETTINGS_def LIGHT_SETTINGS_def settings_object_def INITIAL_SETTINGS_def)
qed

section \<open>The copy button\<close>

lemma handleCopyToClipboard_with_clipboard:
  "\<exists>s'. handleCopyToClipboard (Some writeText) text' ident lang s = Inr s'"
  by (simp add: handleCopyToClipboard_def split: sum.splits)

lemma handleCopyToClipboard_granted_example:
  "handleCopyToClipboard granted_clipboard [] ''full-en'' ''en'' SAMPLE_STATE
     = Inr (SAMPLE_STATE\<lparr>copyStatus := Some (''full-en'', ''en'')\<rparr>)"
  by (simp add: handleCopyToClipboard_def granted_clipboard_def)

text \<open>
  Claim C9 says that \<^verbatim>\<open>handleCopyToClipboard\<close> never throws to its caller on the empty
  string. Where \<^verbatim>\<open>navigator.clipboard\<close> is \<^verbatim>\<open>undefined\<close> it does, for every
  \<^verbatim>\<open>id\<close> and \<^verbatim>\<open>lang\<close>: reading \<^verbatim>\<open>writeText\<close> throws a TypeError, and the handler
  has no guard of the kind \<^verbatim>\<open>handleVoiceInput\<close> and \<^verbatim>\<open>handleReadAloud\<close> have for
  their browser interfaces. Where the clipboard exists the handler never throws (the
  two lemmas above).
\<close>

theorem handleCopyToClipboard_without_clipboard_throws:
  "handleCopyToClipboard None [] ident lang s = Inl (cannot_read ''undefined'' ''writeText'')"
  by (simp add: handleCopyToClipboard_def)

end
